theory Spec2Isabelle
  imports Complex_Main
begin

section \<open>pye3d: the model update schedule\<close>

text \<open>
  Python floats (timestamps, durations, confidences, coordinates) are modelled as
  real numbers throughout: comparisons and arithmetic are exact.

  \<^verbatim>\<open>_ModelUpdateSchedule\<close> of \<^verbatim>\<open>detector_3d.py\<close>: the object's five
  attributes are the fields of a record, \<^verbatim>\<open>None\<close> is \<open>None\<close>, and every method
  returns the updated object (\<^verbatim>\<open>is_update_due\<close> also returns its result).
\<close>

record schedule =
  update_interval :: real
  warmup_duration :: real
  warmup_start :: "real option"
  paused :: bool
  last_update :: "real option"

definition new_schedule :: "real \<Rightarrow> real \<Rightarrow> schedule" where
  "new_schedule ui wd =
     \<lparr>update_interval = ui, warmup_duration = wd, warmup_start = None,
      paused = False, last_update = None\<rparr>"

definition pause :: "schedule \<Rightarrow> schedule" where
  "pause s = s\<lparr>paused := True\<rparr>"

definition resume :: "schedule \<Rightarrow> schedule" where
  "resume s = s\<lparr>paused := False, last_update := None\<rparr>"

definition is_update_due :: "schedule \<Rightarrow> real \<Rightarrow> bool \<times> schedule" where
  "is_update_due s current_time =
     (if paused s then (False, s)
      else case warmup_start s of
        None \<Rightarrow> (True, s\<lparr>warmup_start := Some current_time\<rparr>)
      | Some ws \<Rightarrow>
          if current_time - ws < warmup_duration s then (True, s)
          else case last_update s of
            None \<Rightarrow> (True, s\<lparr>last_update := Some current_time\<rparr>)
          | Some lu \<Rightarrow>
              if current_time - lu > update_interval s
              then (True, s\<lparr>last_update := Some current_time\<rparr>)
              else (False, s))"

text \<open>
  A sequence of method calls on one schedule object, and the list of the results of
  its \<^verbatim>\<open>is_update_due\<close> calls (time and returned value), oldest first.
\<close>

datatype schedule_call = IsUpdateDue real | Pause | Resume

fun run_schedule :: "schedule \<Rightarrow> schedule_call list \<Rightarrow> (real \<times> bool) list \<times> schedule" where
  "run_schedule s [] = ([], s)"
| "run_schedule s (IsUpdateDue t # cs) =
     (let (r, s') = is_update_due s t; (rs, s'') = run_schedule s' cs
      in ((t, r) # rs, s''))"
| "run_schedule s (Pause # cs) = run_schedule (pause s) cs"
| "run_schedule s (Resume # cs) = run_schedule (resume s) cs"

text \<open>The time of the last call that returned true, in a list of results.\<close>

definition last_true_time :: "(real \<times> bool) list \<Rightarrow> real option" where
  "last_true_time rs =
     (case filter snd rs of [] \<Rightarrow> None | x # xs \<Rightarrow> Some (fst (last (x # xs))))"

section \<open>Vectors, ellipses, circles\<close>

text \<open>
  A numpy vector (and a Python tuple or list of numbers) is a list of reals; the
  operations below are numpy's element-wise arithmetic, \<^verbatim>\<open>np.dot\<close> and
  \<^verbatim>\<open>np.linalg.norm\<close> on vectors of equal length.
\<close>

type_synonym vec = "real list"

definition vadd :: "vec \<Rightarrow> vec \<Rightarrow> vec" where
  "vadd a b = map2 (+) a b"

definition vsub :: "vec \<Rightarrow> vec \<Rightarrow> vec" where
  "vsub a b = map2 (-) a b"

definition smul :: "real \<Rightarrow> vec \<Rightarrow> vec" where
  "smul k a = map ((*) k) a"

definition dot :: "vec \<Rightarrow> vec \<Rightarrow> real" where
  "dot a b = sum_list (map2 (*) a b)"

definition norm :: "vec \<Rightarrow> real" where
  "norm a = sqrt (dot a a)"

text \<open>
  \<^verbatim>\<open>normalize\<close>, as the local definition in \<^verbatim>\<open>deep_sphere_estimate\<close> has it:
  \<^verbatim>\<open>vector / np.linalg.norm(vector)\<close>. On the zero vector numpy yields NaNs; the
  theorems that divide by a norm assume it is not zero.
\<close>

definition normalize :: "vec \<Rightarrow> vec" where
  "normalize a = map (\<lambda>x. x / norm a) a"

text \<open>
  The primitives of \<^verbatim>\<open>pye3d.geometry.primitives\<close> (not among the sources), as
  records of the constructor arguments the code passes and the attributes it reads.
\<close>

record ellipse =
  ellipse_center :: vec
  minor_radius :: real
  major_radius :: real
  angle :: real

record circle =
  circle_center :: vec
  normal :: vec
  radius :: real

record line =
  origin :: vec
  direction :: vec

section \<open>Extracting the ellipse of a pupil datum\<close>

text \<open>
  The pupil datum is the dictionary of the 2D detector:
  \<^verbatim>\<open>{"ellipse": {"center": (x, y), "axes": (a, b), "angle": deg}, "confidence": c, "timestamp": t}\<close>.
\<close>

record pupil_datum =
  datum_center :: "real \<times> real"
  datum_axes :: "real \<times> real"
  datum_angle :: real
  datum_confidence :: real
  datum_timestamp :: real

record camera =
  focal_length :: real
  resolution :: "int \<times> int"

text \<open>
  \<^verbatim>\<open>Observation(ellipse, confidence, timestamp, focal_length)\<close> of
  \<^verbatim>\<open>detector_3d.py\<close>: the class is not among the sources; the record holds the
  constructor's arguments, of which the detector reads and overwrites
  \<open>confidence\<close> and reads \<open>timestamp\<close>.
\<close>

record observation =
  obs_ellipse :: ellipse
  confidence :: real
  timestamp :: real
  obs_focal_length :: real

text \<open>\<^verbatim>\<open>Detector3D._extract_observation\<close>.\<close>

definition extract_observation :: "camera \<Rightarrow> pupil_datum \<Rightarrow> observation" where
  "extract_observation cam pupil_datum =
     (let (width, height) = resolution cam;
          center = [fst (datum_center pupil_datum) - real_of_int width / 2,
                    snd (datum_center pupil_datum) - real_of_int height / 2];
          minor_axis = fst (datum_axes pupil_datum) / 2;
          major_axis = snd (datum_axes pupil_datum) / 2;
          angle = (datum_angle pupil_datum - 90) * pi / 180
      in \<lparr>obs_ellipse = \<lparr>ellipse_center = center, minor_radius = minor_axis,
                          major_radius = major_axis, angle = angle\<rparr>,
          confidence = datum_confidence pupil_datum,
          timestamp = datum_timestamp pupil_datum,
          obs_focal_length = focal_length cam\<rparr>)"

text \<open>
  \<^verbatim>\<open>TwoSphereModel\<close> of \<^verbatim>\<open>two_sphere_model.py\<close>: its settings dictionary, and
  \<^verbatim>\<open>_extract_ellipse\<close> (the unary plus on the first coordinate is the identity).
\<close>

record tsm_settings =
  tsm_focal_length :: real
  tsm_resolution :: "int \<times> int"
  maxlen :: nat

definition extract_ellipse :: "tsm_settings \<Rightarrow> pupil_datum \<Rightarrow> ellipse" where
  "extract_ellipse settings pupil_datum =
     (let (width, height) = tsm_resolution settings;
          center = [(fst (datum_center pupil_datum) - real_of_int width / 2),
                    - (snd (datum_center pupil_datum) - real_of_int height / 2)];
          minor_axis = fst (datum_axes pupil_datum) / 2;
          major_axis = snd (datum_axes pupil_datum) / 2;
          angle = - (datum_angle pupil_datum + 90) * pi / 180
      in \<lparr>ellipse_center = center, minor_radius = minor_axis,
          major_radius = major_axis, angle = angle\<rparr>)"

text \<open>
  The orientation of an ellipse is its angle modulo a half turn: two angles describe
  the same orientation when they differ by a multiple of \<open>pi\<close>, that is, when the sine
  of their difference is zero.
\<close>

definition same_orientation :: "real \<Rightarrow> real \<Rightarrow> bool" where
  "same_orientation a b \<longleftrightarrow> sin (a - b) = 0"

section \<open>The detector\<close>

text \<open>Exceptions are values: a function that can raise returns \<open>exn + 'a\<close>.\<close>

datatype exn = LinAlgError | ValueError | IndexError | KeyError | TypeError | RuntimeError

text \<open>The settings dictionary of \<^verbatim>\<open>Detector3D.__init__\<close>.\<close>

record detector_settings =
  threshold_swirski :: real
  threshold_kalman :: real
  threshold_short_term :: real
  threshold_long_term :: real
  long_term_buffer_size :: int
  long_term_forget_time :: real
  long_term_forget_observations :: int
  model_update_interval_long_term :: real
  model_update_interval_ult_long_term :: real
  model_warmup_duration :: real

text \<open>
  The Kalman filter (\<^verbatim>\<open>pye3d.kalman\<close>, not among the sources) is an opaque object:
  its state is the history of the method calls made on it, oldest first, and what
  \<^verbatim>\<open>predict\<close> returns is a function of that history (\<open>kalman_predict\<close> below).
\<close>

datatype kalman_call = Predict real | Correct real real real

text \<open>
  One model tier of the detector (a \<^verbatim>\<open>TwoSphereModelAbstract\<close> of
  \<^verbatim>\<open>pye3d.eye_model\<close>, not among the sources): its observation storage, of an
  arbitrary type, and the two sphere centers.
\<close>

record 's tier_model =
  storage :: 's
  sphere_center :: vec
  corrected_sphere_center :: vec

record sphere_center_estimates =
  projected :: vec
  three_dim :: vec

record 's detector =
  det_camera :: camera
  det_settings :: detector_settings
  short_term_model :: "'s tier_model"
  long_term_model :: "'s tier_model"
  ultra_long_term_model :: "'s tier_model"
  long_term_schedule :: schedule
  ult_long_term_schedule :: schedule
  kalman_filter :: "kalman_call list"
  log :: "string list"

text \<open>
  What \<^verbatim>\<open>detector_3d.py\<close> imports from modules that are not among the sources
  is a parameter of the model: the null circle and the null test of
  \<^verbatim>\<open>Circle\<close>, the coordinate conversions, the eye radius constant, the Kalman
  filter's prediction, the tiers' pupil prediction, the native edge extraction and
  sphere search (\<open>'f\<close> is the type of frames, \<open>'e\<close> of edge points; both can
  raise), the projection of a circle (which can fail, returning \<^verbatim>\<open>False\<close>, here
  \<open>None\<close>), the circumference of an ellipse, the operations of an observation
  storage \<open>'s\<close>, the least-squares solve of a tier (which can raise), the refraction
  correction of a sphere center and the projection of a sphere center.
\<close>

record ('s, 'f, 'e) collaborators =
  Circle_null :: circle
  is_null :: "circle \<Rightarrow> bool"
  spherical_representation :: "circle \<Rightarrow> real \<times> real \<times> real"
  sph2cart :: "real \<Rightarrow> real \<Rightarrow> vec"
  EYE_RADIUS_DEFAULT :: real
  kalman_predict :: "kalman_call list \<Rightarrow> real \<Rightarrow> real \<times> real \<times> real"
  tier_predict_pupil_circle :: "'s tier_model \<Rightarrow> observation \<Rightarrow> circle"
  get_edges :: "'f \<Rightarrow> vec \<Rightarrow> real \<Rightarrow> vec \<Rightarrow> real \<Rightarrow> real \<Rightarrow> int \<times> int \<Rightarrow> real
                 \<Rightarrow> exn + 'e list"
  search_on_sphere :: "'e list \<Rightarrow> vec \<Rightarrow> real \<Rightarrow> vec \<Rightarrow> real \<Rightarrow> real \<Rightarrow> int \<times> int
                 \<Rightarrow> exn + (vec \<times> real \<times> 'e list \<times> 'e list)"
  project_circle_into_image_plane :: "circle \<Rightarrow> real \<Rightarrow> bool \<Rightarrow> int \<Rightarrow> int
                 \<Rightarrow> exn + ellipse option"
  circumference :: "ellipse \<Rightarrow> real"
  add_observation :: "'s \<Rightarrow> observation \<Rightarrow> 's"
  n_observations :: "'s \<Rightarrow> int"
  mean_observation_circularity :: "'s \<Rightarrow> real"
  solve_sphere_center :: "'s tier_model \<Rightarrow> vec option \<Rightarrow> vec option \<Rightarrow> real
                 \<Rightarrow> exn + sphere_center_estimates"
  correct_sphere_center :: "vec \<Rightarrow> vec"
  project_sphere_center :: "vec \<Rightarrow> vec"

subsection \<open>Predicting the pupil circle\<close>

text \<open>\<^verbatim>\<open>Detector3D._predict_from_kalman_filter\<close>.\<close>

definition predict_from_kalman_filter ::
  "('s, 'f, 'e) collaborators \<Rightarrow> 's detector \<Rightarrow> real \<Rightarrow> circle \<times> 's detector" where
  "predict_from_kalman_filter env d ts =
     (let (phi, theta, pupil_radius_kalman) = kalman_predict env (kalman_filter d) ts;
          d' = d\<lparr>kalman_filter := kalman_filter d @ [Predict ts]\<rparr>;
          gaze_vector_kalman = sph2cart env phi theta;
          pupil_center_kalman =
            vadd (sphere_center (short_term_model d'))
                 (smul (EYE_RADIUS_DEFAULT env) gaze_vector_kalman)
      in (\<lparr>circle_center = pupil_center_kalman, normal = gaze_vector_kalman,
            radius = pupil_radius_kalman\<rparr>, d'))"

text \<open>\<^verbatim>\<open>Detector3D._correct_kalman_filter\<close>.\<close>

definition correct_kalman_filter ::
  "('s, 'f, 'e) collaborators \<Rightarrow> 's detector \<Rightarrow> circle \<Rightarrow> 's detector" where
  "correct_kalman_filter env d observed_pupil_circle =
     (if is_null env observed_pupil_circle then d
      else let (phi, theta, r) = spherical_representation env observed_pupil_circle
           in d\<lparr>kalman_filter := kalman_filter d @ [Correct phi theta r]\<rparr>)"

text \<open>\<^verbatim>\<open>np.clip\<close> on a scalar.\<close>

definition clip :: "real \<Rightarrow> real \<Rightarrow> real \<Rightarrow> real" where
  "clip x lo hi = min (max x lo) hi"

text \<open>
  \<^verbatim>\<open>Detector3D._predict_from_3d_search\<close>, with \<^verbatim>\<open>debug=False\<close> as its only
  caller has it (the debug drawing is left out); of the values \<^verbatim>\<open>get_edges\<close>
  returns only \<^verbatim>\<open>edges\<close> is used. For a circumference of zero the source's
  quotient is not a real number (numpy yields inf or NaN); the theorems about the
  quotient assume a positive circumference.
\<close>

definition predict_from_3d_search ::
  "('s, 'f, 'e) collaborators \<Rightarrow> 's detector \<Rightarrow> 'f \<Rightarrow> circle \<Rightarrow> exn + (circle \<times> real)" where
  "predict_from_3d_search env d frame best_guess =
     (let no_result = (Circle_null env, 0) in
      if is_null env best_guess then Inr no_result
      else
        case get_edges env frame (normal best_guess) (radius best_guess)
               (sphere_center (long_term_model d)) (EYE_RADIUS_DEFAULT env)
               (focal_length (det_camera d)) (resolution (det_camera d)) 2.5 of
          Inl e \<Rightarrow> Inl e
        | Inr edges \<Rightarrow>
            if int (length edges) \<le> 0 then Inr no_result
            else
              case search_on_sphere env edges (normal best_guess) (radius best_guess)
                     (sphere_center (long_term_model d)) (EYE_RADIUS_DEFAULT env)
                     (focal_length (det_camera d)) (resolution (det_camera d)) of
                Inl e \<Rightarrow> Inl e
              | Inr (gaze_vector, pupil_radius, final_edges, edges_on_sphere) \<Rightarrow>
                  let pupil_center =
                        vadd (sphere_center (long_term_model d))
                             (smul (EYE_RADIUS_DEFAULT env) gaze_vector);
                      pupil_circle = \<lparr>circle_center = pupil_center, normal = gaze_vector,
                                      radius = pupil_radius\<rparr>
                  in if is_null env pupil_circle then Inr (pupil_circle, 0)
                     else
                       case project_circle_into_image_plane env pupil_circle
                              (focal_length (det_camera d)) False
                              (fst (resolution (det_camera d)))
                              (snd (resolution (det_camera d))) of
                         Inl e \<Rightarrow> Inl e
                       | Inr None \<Rightarrow> Inr (pupil_circle, 0)
                       | Inr (Some ellipse_2d) \<Rightarrow>
                           Inr (pupil_circle,
                                clip (real (length final_edges) / circumference env ellipse_2d)
                                     0 1))"

text \<open>
  \<^verbatim>\<open>Detector3D._predict_pupil_circle\<close>: it returns the pupil circle; the
  observation, whose confidence it may overwrite, and the detector are returned with
  it.
\<close>

definition predict_pupil_circle ::
  "('s, 'f, 'e) collaborators \<Rightarrow> 's detector \<Rightarrow> observation \<Rightarrow> 'f
     \<Rightarrow> exn + (circle \<times> observation \<times> 's detector)" where
  "predict_pupil_circle env d obs frame =
     (let (pupil_circle_kalman, d1) = predict_from_kalman_filter env d (timestamp obs) in
      case (if confidence obs > threshold_swirski (det_settings d1)
            then let short_term = tier_predict_pupil_circle env (short_term_model d1) obs;
                     long_term = tier_predict_pupil_circle env (long_term_model d1) obs
                 in Inr (\<lparr>circle_center = circle_center long_term, normal = normal short_term,
                          radius = radius long_term\<rparr>, obs)
            else case predict_from_3d_search env d1 frame pupil_circle_kalman of
                   Inl e \<Rightarrow> Inl e
                 | Inr (pupil_circle, confidence_3d_search) \<Rightarrow>
                     Inr (pupil_circle, obs\<lparr>confidence := confidence_3d_search\<rparr>)) of
        Inl e \<Rightarrow> Inl e
      | Inr (pupil_circle, obs') \<Rightarrow>
          Inr (pupil_circle, obs',
               if confidence obs' > threshold_kalman (det_settings d1)
               then correct_kalman_filter env d1 pupil_circle
               else d1))"

subsection \<open>Updating the models\<close>

text \<open>\<^verbatim>\<open>sigmoid\<close> of \<^verbatim>\<open>detector_3d.py\<close>, with its default arguments.\<close>

definition sigmoid :: "real \<Rightarrow> real" where
  "sigmoid x = 0.1 + 500 * 1 / (1 + exp (- (x - 0.99) / 0.02))"

text \<open>
  Modelled from the spec: \<^verbatim>\<open>estimate_sphere_center\<close> of a model tier
  (\<^verbatim>\<open>pye3d.eye_model\<close>, not among the sources). By section 4.5 it solves the
  least-squares fit (the parameter \<open>solve_sphere_center\<close>, which raises on a
  numerical failure), then updates \<open>sphere_center\<close> and recomputes
  \<open>corrected_sphere_center\<close> with the refraction correction, and returns the
  estimates; when the solve raises, the tier is left as it was.
\<close>

definition estimate_sphere_center ::
  "('s, 'f, 'e) collaborators \<Rightarrow> 's tier_model \<Rightarrow> vec option \<Rightarrow> vec option \<Rightarrow> real
     \<Rightarrow> exn + (sphere_center_estimates \<times> 's tier_model)" where
  "estimate_sphere_center env m from_2d prior_3d prior_strength =
     (case solve_sphere_center env m from_2d prior_3d prior_strength of
        Inl e \<Rightarrow> Inl e
      | Inr est \<Rightarrow>
          Inr (est, m\<lparr>sphere_center := three_dim est,
                      corrected_sphere_center := correct_sphere_center env (three_dim est)\<rparr>))"

text \<open>
  The first three statements of \<^verbatim>\<open>Detector3D.update_models\<close>: the observation is
  added to the storage of each tier.
\<close>

definition add_observations ::
  "('s, 'f, 'e) collaborators \<Rightarrow> 's detector \<Rightarrow> observation \<Rightarrow> 's detector" where
  "add_observations env d obs =
     d\<lparr>short_term_model :=
         (short_term_model d)\<lparr>storage := add_observation env (storage (short_term_model d)) obs\<rparr>,
       long_term_model :=
         (long_term_model d)\<lparr>storage := add_observation env (storage (long_term_model d)) obs\<rparr>,
       ultra_long_term_model :=
         (ultra_long_term_model d)\<lparr>storage :=
            add_observation env (storage (ultra_long_term_model d)) obs\<rparr>\<rparr>"

text \<open>
  The body of the \<^verbatim>\<open>try\<close> statement of \<^verbatim>\<open>update_models\<close>. When a statement
  raises, the result is \<open>Inl\<close> of the exception and of the detector as it is at that
  moment: the assignments made before the raise have happened.
\<close>

definition fit_models ::
  "('s, 'f, 'e) collaborators \<Rightarrow> 's detector \<Rightarrow> observation
     \<Rightarrow> (exn \<times> 's detector) + 's detector" where
  "fit_models env d obs =
     (let (due_ult, sched_ult) = is_update_due (ult_long_term_schedule d) (timestamp obs);
          d1 = d\<lparr>ult_long_term_schedule := sched_ult\<rparr>
      in case (if due_ult
               then case estimate_sphere_center env (ultra_long_term_model d1) None None 0 of
                      Inl e \<Rightarrow> Inl (e, d1)
                    | Inr (est, m) \<Rightarrow> Inr (d1\<lparr>ultra_long_term_model := m\<rparr>)
               else Inr d1) of
           Inl x \<Rightarrow> Inl x
         | Inr d2 \<Rightarrow>
             let (due_long, sched_long) = is_update_due (long_term_schedule d2) (timestamp obs);
                 d3 = d2\<lparr>long_term_schedule := sched_long\<rparr>
             in case (if due_long
                      then case estimate_sphere_center env (long_term_model d3) None
                                  (Some (sphere_center (ultra_long_term_model d3))) 0.1 of
                             Inl e \<Rightarrow> Inl (e, d3)
                           | Inr (est, m) \<Rightarrow> Inr (est, d3\<lparr>long_term_model := m\<rparr>)
                      else Inr (\<lparr>projected =
                                   project_sphere_center env (sphere_center (long_term_model d3)),
                                 three_dim = sphere_center (long_term_model d3)\<rparr>, d3)) of
                  Inl x \<Rightarrow> Inl x
                | Inr (long_term_estimate, d4) \<Rightarrow>
                    let circularity_mean =
                          mean_observation_circularity env (storage (short_term_model d4))
                    in case estimate_sphere_center env (short_term_model d4)
                              (Some (projected long_term_estimate))
                              (Some (three_dim long_term_estimate))
                              (sigmoid circularity_mean) of
                         Inl e \<Rightarrow> Inl (e, d4)
                       | Inr (est, m) \<Rightarrow> Inr (d4\<lparr>short_term_model := m\<rparr>))"

text \<open>
  \<^verbatim>\<open>Detector3D.update_models\<close>: the \<^verbatim>\<open>except\<close> clause logs the error and
  keeps the detector as the raise left it.
\<close>

definition update_models ::
  "('s, 'f, 'e) collaborators \<Rightarrow> 's detector \<Rightarrow> observation \<Rightarrow> 's detector" where
  "update_models env d obs =
     (let d0 = add_observations env d obs in
      if n_observations env (storage (short_term_model d0)) \<le> 0
         \<or> n_observations env (storage (long_term_model d0)) \<le> 0
         \<or> n_observations env (storage (ultra_long_term_model d0)) \<le> 0
      then d0
      else case fit_models env d0 obs of
             Inl (e, d') \<Rightarrow> d'\<lparr>log := log d' @ [''Error updating models:'']\<rparr>
           | Inr d' \<Rightarrow> d')"

subsection \<open>Example collaborators\<close>

text \<open>
  Stand-ins for the absent modules, used to run the model on concrete inputs: a
  storage is the list of the observations added to it; a frame is given by the list
  of its edge points, all of which the sphere search accepts; a tier predicts the
  null circle for an observation whose ellipse is degenerate (the unprojection has
  no solution) and a circle of radius 2 at its sphere center otherwise; the
  least-squares solve converges to the center (1, 2, 3) without a prior and does not
  converge with a prior.
\<close>

definition example_env :: "(observation list, nat list, nat) collaborators" where
  "example_env =
     \<lparr>Circle_null = \<lparr>circle_center = [0, 0, 0], normal = [0, 0, 0], radius = 0\<rparr>,
      is_null = (\<lambda>c. radius c \<le> 0),
      spherical_representation = (\<lambda>c. (normal c ! 0, normal c ! 1, radius c)),
      sph2cart = (\<lambda>phi theta. [0, 0, - 1]),
      EYE_RADIUS_DEFAULT = 10,
      kalman_predict = (\<lambda>history ts. (0, 0, 3)),
      tier_predict_pupil_circle = (\<lambda>m obs.
        if minor_radius (obs_ellipse obs) \<le> 0
        then \<lparr>circle_center = [0, 0, 0], normal = [0, 0, 0], radius = 0\<rparr>
        else \<lparr>circle_center = sphere_center m, normal = [0, 0, - 1], radius = 2\<rparr>),
      get_edges = (\<lambda>frame n r c er f res factor. Inr frame),
      search_on_sphere = (\<lambda>edges n r c er f res. Inr ([0, 0, - 1], 2, edges, edges)),
      project_circle_into_image_plane = (\<lambda>c f transform w h.
        Inr (Some \<lparr>ellipse_center = [0, 0], minor_radius = 1, major_radius = 1, angle = 0\<rparr>)),
      circumference = (\<lambda>e. 8),
      add_observation = (\<lambda>s obs. s @ [obs]),
      n_observations = (\<lambda>s. int (length s)),
      mean_observation_circularity = (\<lambda>s. 1),
      solve_sphere_center = (\<lambda>m from_2d prior_3d prior_strength.
        case prior_3d of
          None \<Rightarrow> Inr \<lparr>projected = [0, 0], three_dim = [1, 2, 3]\<rparr>
        | Some p \<Rightarrow> Inl LinAlgError),
      correct_sphere_center = (\<lambda>c. c),
      project_sphere_center = (\<lambda>c. take 2 c)\<rparr>"

text \<open>
  The same stand-ins with a least-squares solve that converges for the
  ultra-long-term tier (to (1, 2, 3)) and for the long-term tier (to (4, 5, 6)), and
  does not converge for the short-term tier, the only one fitted with a projected
  center.
\<close>

definition example_env_short_term_fails :: "(observation list, nat list, nat) collaborators" where
  "example_env_short_term_fails =
     example_env\<lparr>solve_sphere_center := (\<lambda>m from_2d prior_3d prior_strength.
        case from_2d of
          Some c \<Rightarrow> Inl LinAlgError
        | None \<Rightarrow>
            (case prior_3d of
               None \<Rightarrow> Inr \<lparr>projected = [0, 0], three_dim = [1, 2, 3]\<rparr>
             | Some p \<Rightarrow> Inr \<lparr>projected = [0, 0], three_dim = [4, 5, 6]\<rparr>))\<rparr>"

definition example_settings :: detector_settings where
  "example_settings =
     \<lparr>threshold_swirski = 0.7, threshold_kalman = 0.98, threshold_short_term = 0.8,
      threshold_long_term = 0.98, long_term_buffer_size = 30, long_term_forget_time = 5,
      long_term_forget_observations = 300, model_update_interval_long_term = 1,
      model_update_interval_ult_long_term = 10, model_warmup_duration = 5\<rparr>"

definition example_tier :: "observation list tier_model" where
  "example_tier = \<lparr>storage = [], sphere_center = [0, 0, 35], corrected_sphere_center = [0, 0, 35]\<rparr>"

text \<open>The detector after \<^verbatim>\<open>reset()\<close>, with the default settings.\<close>

definition example_detector :: "observation list detector" where
  "example_detector =
     \<lparr>det_camera = \<lparr>focal_length = 283, resolution = (192, 192)\<rparr>,
      det_settings = example_settings,
      short_term_model = example_tier,
      long_term_model = example_tier,
      ultra_long_term_model = example_tier,
      long_term_schedule = new_schedule 1 5,
      ult_long_term_schedule = new_schedule 10 5,
      kalman_filter = [],
      log = []\<rparr>"

definition example_observation :: "real \<Rightarrow> real \<Rightarrow> observation" where
  "example_observation minor conf =
     \<lparr>obs_ellipse = \<lparr>ellipse_center = [4, - 46], minor_radius = minor, major_radius = 10,
                     angle = 0\<rparr>,
      confidence = conf, timestamp = 0, obs_focal_length = 283\<rparr>"

section \<open>The two-sphere model\<close>

text \<open>
  \<^verbatim>\<open>TwoSphereModel\<close> of \<^verbatim>\<open>two_sphere_model.py\<close>: the attributes its prediction
  reads.
\<close>

record two_sphere_model =
  settings :: tsm_settings
  tsm_sphere_center :: vec
  tsm_corrected_sphere_center :: vec

text \<open>
  The functions \<^verbatim>\<open>two_sphere_model.py\<close> imports from \<^verbatim>\<open>pye3d.geometry\<close> and
  \<^verbatim>\<open>pye3d.constants\<close>, which are not among the sources, are parameters: the
  unprojection of an ellipse (\<open>None\<close> when it has no solution), the truth value of a
  circle, the nearest point on a sphere to a line, the two projections and the eye
  radius.
\<close>

record geometry =
  unproject_ellipse :: "ellipse \<Rightarrow> real \<Rightarrow> (circle \<times> circle) option"
  circle_bool :: "circle \<Rightarrow> bool"
  nearest_point_on_sphere_to_line :: "vec \<Rightarrow> real \<Rightarrow> vec \<Rightarrow> vec \<Rightarrow> vec"
  project_point_into_image_plane :: "vec \<Rightarrow> real \<Rightarrow> vec"
  project_line_into_image_plane :: "line \<Rightarrow> real \<Rightarrow> line"
  eye_radius_default :: real

text \<open>
  \<^verbatim>\<open>TwoSphereModel._disambiguate_circle_3d_pair\<close>. When the projected normal is
  the zero vector, \<^verbatim>\<open>normalize\<close> divides zero by zero, the dot product is NaN and
  the comparison with 0 is false: the second circle is returned.
\<close>

definition disambiguate_circle_3d_pair ::
  "geometry \<Rightarrow> two_sphere_model \<Rightarrow> circle \<times> circle \<Rightarrow> circle" where
  "disambiguate_circle_3d_pair g m circle_3d_pair =
     (let circle_center_2d =
            project_point_into_image_plane g (circle_center (fst circle_3d_pair))
              (tsm_focal_length (settings m));
          projected_normal =
            direction (project_line_into_image_plane g
              \<lparr>origin = circle_center (fst circle_3d_pair),
               direction = normal (fst circle_3d_pair)\<rparr>
              (tsm_focal_length (settings m)));
          circle_normal_2d = normalize projected_normal;
          sphere_center_2d =
            project_point_into_image_plane g (tsm_sphere_center m)
              (tsm_focal_length (settings m))
      in if norm projected_normal = 0 then snd circle_3d_pair
         else if dot (vsub circle_center_2d sphere_center_2d) circle_normal_2d \<ge> 0
              then fst circle_3d_pair
              else snd circle_3d_pair)"

text \<open>\<^verbatim>\<open>TwoSphereModel._extract_unproject_disambiguate\<close>.\<close>

definition extract_unproject_disambiguate ::
  "geometry \<Rightarrow> two_sphere_model \<Rightarrow> pupil_datum \<Rightarrow> circle" where
  "extract_unproject_disambiguate g m pupil_datum =
     (let ellipse = extract_ellipse (settings m) pupil_datum in
      case unproject_ellipse g ellipse (tsm_focal_length (settings m)) of
        Some circle_3d_pair \<Rightarrow> disambiguate_circle_3d_pair g m circle_3d_pair
      | None \<Rightarrow> \<lparr>circle_center = [0, 0, 0], normal = [0, 0, - 1], radius = 0\<rparr>)"

text \<open>
  \<^verbatim>\<open>TwoSphereModel.predict_pupil_circle\<close>. Its first argument is a pair of
  circles when \<^verbatim>\<open>from_given_circle_3d_pair\<close> is true and a pupil datum otherwise;
  with the other kind of argument the subscripting raises.
\<close>

definition tsm_predict_pupil_circle ::
  "geometry \<Rightarrow> two_sphere_model \<Rightarrow> (circle \<times> circle) + pupil_datum \<Rightarrow> bool \<Rightarrow> bool
     \<Rightarrow> exn + circle" where
  "tsm_predict_pupil_circle g m input from_given_circle_3d_pair use_unprojection =
     (case (if from_given_circle_3d_pair
            then case input of
                   Inl circle_3d_pair \<Rightarrow> Inr (disambiguate_circle_3d_pair g m circle_3d_pair)
                 | Inr pupil_datum \<Rightarrow> Inl KeyError
            else case input of
                   Inl circle_3d_pair \<Rightarrow> Inl TypeError
                 | Inr pupil_datum \<Rightarrow> Inr (extract_unproject_disambiguate g m pupil_datum)) of
        Inl e \<Rightarrow> Inl e
      | Inr circle_3d \<Rightarrow>
          if circle_bool g circle_3d
          then let direction = normalize (circle_center circle_3d);
                   nearest_point_on_sphere =
                     nearest_point_on_sphere_to_line g (tsm_sphere_center m)
                       (eye_radius_default g) [0, 0, 0] direction;
                   gaze_vector =
                     (if use_unprojection then normal circle_3d
                      else normalize (vsub nearest_point_on_sphere (tsm_sphere_center m)));
                   radius = norm nearest_point_on_sphere / norm (circle_center circle_3d)
               in Inr \<lparr>circle_center = nearest_point_on_sphere, normal = gaze_vector,
                       radius = radius\<rparr>
          else Inr \<lparr>circle_center = [0, 0, 0], normal = [0, 0, - 1], radius = 0\<rparr>)"

text \<open>
  Stand-ins for the geometry, used to run the model on concrete inputs: the pinhole
  projection of a point and of a line (through two of its points), and, for the
  nearest point, the first intersection of a line that goes through the center of
  the sphere and starts outside it.
\<close>

definition example_geometry :: geometry where
  "example_geometry =
     \<lparr>unproject_ellipse = (\<lambda>e f. None),
      circle_bool = (\<lambda>c. radius c > 0),
      nearest_point_on_sphere_to_line = (\<lambda>center r origin direction.
        vsub center (smul r direction)),
      project_point_into_image_plane = (\<lambda>p f. [f * (p ! 0) / (p ! 2), f * (p ! 1) / (p ! 2)]),
      project_line_into_image_plane = (\<lambda>l f.
        \<lparr>origin = [f * (origin l ! 0) / (origin l ! 2), f * (origin l ! 1) / (origin l ! 2)],
         direction =
           vsub [f * (vadd (origin l) (direction l) ! 0) / (vadd (origin l) (direction l) ! 2),
                 f * (vadd (origin l) (direction l) ! 1) / (vadd (origin l) (direction l) ! 2)]
                [f * (origin l ! 0) / (origin l ! 2), f * (origin l ! 1) / (origin l ! 2)]\<rparr>),
      eye_radius_default = 10\<rparr>"

text \<open>A two-sphere model with the sphere center its constructor sets.\<close>

definition example_tsm :: two_sphere_model where
  "example_tsm =
     \<lparr>settings = \<lparr>tsm_focal_length = 283, tsm_resolution = (192, 192), maxlen = 10000\<rparr>,
      tsm_sphere_center = [0, 0, 35],
      tsm_corrected_sphere_center = [0, 0, 35]\<rparr>"

section \<open>Estimating the sphere center\<close>

text \<open>
  A numpy matrix is the list of its rows. \<open>sum_axis0\<close> is \<^verbatim>\<open>array.sum(axis=0)\<close>
  on a non-empty stack of matrices, \<open>matvec\<close> is \<^verbatim>\<open>M @ v\<close>, \<open>vecmat\<close> is
  \<^verbatim>\<open>v.T @ M\<close>, and \<open>sub\<close> is the slice \<^verbatim>\<open>[:n, :n]\<close>.
\<close>

type_synonym mat = "real list list"

definition madd :: "mat \<Rightarrow> mat \<Rightarrow> mat" where
  "madd a b = map2 vadd a b"

fun sum_axis0 :: "mat list \<Rightarrow> mat" where
  "sum_axis0 [] = []"
| "sum_axis0 [m] = m"
| "sum_axis0 (m # ms) = madd m (sum_axis0 ms)"

fun vsum :: "vec list \<Rightarrow> vec" where
  "vsum [] = []"
| "vsum [v] = v"
| "vsum (v # vs) = vadd v (vsum vs)"

definition matvec :: "mat \<Rightarrow> vec \<Rightarrow> vec" where
  "matvec M v = map (\<lambda>row. dot row v) M"

definition vecmat :: "vec \<Rightarrow> mat \<Rightarrow> vec" where
  "vecmat v M = vsum (map2 smul v M)"

definition sub :: "nat \<Rightarrow> mat \<Rightarrow> mat" where
  "sub n M = map (take n) (take n M)"

text \<open>
  An observation of \<^verbatim>\<open>two_sphere_model.py\<close> (the class is not among the sources):
  the attributes \<^verbatim>\<open>deep_sphere_estimate\<close> reads. \<^verbatim>\<open>aux_2d\<close> is a 2 x 3 matrix,
  \<^verbatim>\<open>aux_3d\<close> a pair of 3 x 4 matrices, one for each member of the circle pair, and
  \<open>Dierkes_lines\<close> holds what \<^verbatim>\<open>get_Dierkes_line(0)\<close> and
  \<^verbatim>\<open>get_Dierkes_line(1)\<close> return. An index is 0 or 1, as \<^verbatim>\<open>np.where(..., 1, 0)\<close>
  produces it; \<open>pick\<close> is the subscript.
\<close>

record tsm_observation =
  aux_2d :: mat
  aux_3d :: "mat \<times> mat"
  gaze_2d :: line
  Dierkes_lines :: "line \<times> line"
  circle_3d_pair :: "circle \<times> circle"
  obs_timestamp :: real

definition pick :: "nat \<Rightarrow> 'a \<times> 'a \<Rightarrow> 'a" where
  "pick idx p = (if idx = 0 then fst p else snd p)"

text \<open>
  The module-level variables \<^verbatim>\<open>prev_center\<close>, \<^verbatim>\<open>prev_disambiguation\<close> and
  \<^verbatim>\<open>prev_t\<close>: one value for the whole process, \<open>None\<close> until a fit has been
  recorded.
\<close>

record smoothing =
  prev_center :: vec
  prev_disambiguation :: "nat list"
  prev_t :: real

record debug_info =
  residuals :: "real list"
  cost :: real
  directions :: "vec list"

text \<open>
  Of numpy and scipy, the pseudo-inverse (which raises when the decomposition does
  not converge) and the median filter are parameters; the mean, the gradient of a
  one-dimensional array (which raises on fewer than two elements) and the index of
  the first maximum are written out. The mean of an empty list is NaN in numpy, which
  is not greater than 2; here it is 0.
\<close>

record numerics =
  pinv :: "mat \<Rightarrow> exn + mat"
  median_filter :: "real list \<Rightarrow> nat \<Rightarrow> real list"

definition np_mean :: "real list \<Rightarrow> real" where
  "np_mean xs = sum_list xs / real (length xs)"

definition np_gradient :: "real list \<Rightarrow> exn + real list" where
  "np_gradient f =
     (let n = length f in
      if n < 2 then Inl ValueError
      else Inr (map (\<lambda>i. if i = 0 then f ! 1 - f ! 0
                          else if i = n - 1 then f ! (n - 1) - f ! (n - 2)
                          else (f ! (i + 1) - f ! (i - 1)) / 2) [0..<n]))"

fun argmax_from :: "real \<Rightarrow> nat \<Rightarrow> nat \<Rightarrow> real list \<Rightarrow> nat" where
  "argmax_from best best_idx i [] = best_idx"
| "argmax_from best best_idx i (x # xs) =
     (if x > best then argmax_from x i (i + 1) xs else argmax_from best best_idx (i + 1) xs)"

definition np_argmax :: "real list \<Rightarrow> nat" where
  "np_argmax xs = (case xs of [] \<Rightarrow> 0 | x # xs' \<Rightarrow> argmax_from x 0 1 xs')"

text \<open>
  The block \<^verbatim>\<open>ESTIMATE NEW MODEL\<close> of \<^verbatim>\<open>deep_sphere_estimate\<close>, in three
  parts: the projected sphere center from the summed 2 x 3 matrices (on an empty
  list of observations the sum is a scalar and its slicing raises), the
  disambiguation indices by the sign of the dot products, and the sphere center from
  the summed disambiguated 3 x 4 matrices. A row of \<^verbatim>\<open>gaze_2d\<close> is the origin
  followed by the direction of the observation's 2D gaze line.
\<close>

definition estimate_projected_sphere_center ::
  "numerics \<Rightarrow> tsm_observation list \<Rightarrow> exn + vec" where
  "estimate_projected_sphere_center lib observations =
     (if observations = [] then Inl IndexError
      else let sum_aux_2d = sum_axis0 (map aux_2d observations) in
           case pinv lib (sub 2 sum_aux_2d) of
             Inl e \<Rightarrow> Inl e
           | Inr P \<Rightarrow> Inr (matvec P (map (\<lambda>row. row ! 2) (take 2 sum_aux_2d))))"

definition disambiguation_indices :: "vec \<Rightarrow> tsm_observation list \<Rightarrow> nat list" where
  "disambiguation_indices projected_sphere_center observations =
     (let gaze_2d_rows = map (\<lambda>obs. origin (gaze_2d obs) @ direction (gaze_2d obs)) observations;
          gaze_2d_origins = map (take 2) gaze_2d_rows;
          gaze_2d_directions = map (drop 2) gaze_2d_rows;
          gaze_2d_towards_center = map (\<lambda>point. vsub point projected_sphere_center) gaze_2d_origins;
          dot_products = map2 dot gaze_2d_towards_center gaze_2d_directions
      in map (\<lambda>x. if x < 0 then 1 else 0) dot_products)"

definition estimate_new_model ::
  "numerics \<Rightarrow> tsm_observation list \<Rightarrow> exn + (vec \<times> nat list)" where
  "estimate_new_model lib observations =
     (case estimate_projected_sphere_center lib observations of
        Inl e \<Rightarrow> Inl e
      | Inr projected_sphere_center \<Rightarrow>
          let indices = disambiguation_indices projected_sphere_center observations;
              aux_3d_disambiguated = map2 (\<lambda>obs idx. pick idx (aux_3d obs)) observations indices;
              sum_aux_3d = sum_axis0 aux_3d_disambiguated
          in case pinv lib (sub 3 sum_aux_3d) of
               Inl e \<Rightarrow> Inl e
             | Inr P \<Rightarrow>
                 Inr (matvec P (map (\<lambda>row. row ! 3) (take 3 sum_aux_3d)), indices))"

text \<open>
  The residuals of the passed observations against the previous fit, and their mean,
  as \<^verbatim>\<open>deep_sphere_estimate\<close> computes them; \<^verbatim>\<open>zip\<close> stops at the shorter of its
  arguments.
\<close>

definition residuals_of :: "smoothing \<Rightarrow> tsm_observation list \<Rightarrow> real list" where
  "residuals_of prev observations =
     (let Dierkes = map (\<lambda>(obs, idx). pick idx (Dierkes_lines obs))
                      (zip observations (prev_disambiguation prev));
          a_minus_p = map (\<lambda>line. vsub (origin line) (prev_center prev)) Dierkes
      in map (\<lambda>(v, m, idx). dot (vecmat v (sub 3 (pick idx m))) v)
           (zip a_minus_p (zip (map aux_3d observations) (prev_disambiguation prev))))"

definition cost_of :: "smoothing \<Rightarrow> tsm_observation list \<Rightarrow> real" where
  "cost_of prev observations = np_mean (residuals_of prev observations)"

text \<open>
  The debug information \<^verbatim>\<open>deep_sphere_estimate\<close> builds when a previous fit is
  recorded: the residuals and their mean, and the first two coordinates of the
  normalized normals of the circles that the previous disambiguation selects.
\<close>

definition debug_info_of :: "smoothing \<Rightarrow> tsm_observation list \<Rightarrow> debug_info" where
  "debug_info_of prev observations =
     \<lparr>residuals = residuals_of prev observations,
      cost = cost_of prev observations,
      directions =
        map (\<lambda>(obs, idx). take 2 (normalize (normal (pick idx (circle_3d_pair obs)))))
          (zip observations (prev_disambiguation prev))\<rparr>"

text \<open>
  \<^verbatim>\<open>TwoSphereModel.deep_sphere_estimate\<close>. It is a static method: its state is
  the module-level smoothing state, passed in and returned. The result is the
  exception raised, or the sphere center, the cutoff and the debug information; the
  smoothing state is assigned at the end only, so a call that raises leaves it as it
  was.
\<close>

definition deep_sphere_estimate ::
  "numerics \<Rightarrow> smoothing option \<Rightarrow> tsm_observation list
     \<Rightarrow> (exn + (vec \<times> real option \<times> debug_info option)) \<times> smoothing option" where
  "deep_sphere_estimate lib prev observations =
     (let finish = (\<lambda>observations cutoff debug.
            case estimate_new_model lib observations of
              Inl e \<Rightarrow> (Inl e, prev)
            | Inr (center, indices) \<Rightarrow>
                (Inr (center, cutoff, debug),
                 Some \<lparr>prev_center = center, prev_disambiguation = indices,
                        prev_t = obs_timestamp (last observations)\<rparr>))
      in case prev of
           None \<Rightarrow> finish observations None None
         | Some p \<Rightarrow>
             let debug = debug_info_of p observations
             in if cost debug > 2
                then let filtered_residuals = median_filter lib (residuals_of p observations) 50
                     in case np_gradient filtered_residuals of
                          Inl e \<Rightarrow> (Inl e, prev)
                        | Inr changes \<Rightarrow>
                            let max_change_idx = np_argmax changes in
                            if max_change_idx < length observations
                            then let cutoff = obs_timestamp (observations ! max_change_idx)
                                 in finish (filter (\<lambda>obs. obs_timestamp obs \<ge> cutoff) observations)
                                      (Some cutoff) (Some debug)
                            else (Inl IndexError, prev)
                else finish observations None (Some debug))"

text \<open>
  What a call returns to its caller, without the debug information: the exception,
  or the sphere center and the cutoff.
\<close>

definition returned ::
  "(exn + (vec \<times> real option \<times> debug_info option)) \<times> smoothing option
     \<Rightarrow> exn + (vec \<times> real option)" where
  "returned r = (case fst r of Inl e \<Rightarrow> Inl e | Inr (c, cutoff, debug) \<Rightarrow> Inr (c, cutoff))"

text \<open>
  Stand-ins to run the estimate on concrete inputs. The matrices of the examples are
  diagonal, and the pseudo-inverse of a diagonal matrix has the reciprocals of its
  non-zero entries; the median filter is applied only to lists whose elements are all
  equal, which it returns as they are. An example observation has the gaze line through the origin
  of the image with direction \<open>v2\<close>, and the unit direction \<open>v3\<close> for both Dierkes
  lines, which go through the point (0, 0, 35); its matrices are the projectors
  \<^verbatim>\<open>I - v v.T\<close> with the projected origin as last column.
\<close>

definition example_numerics :: numerics where
  "example_numerics =
     \<lparr>pinv = (\<lambda>M. Inr (map (map (\<lambda>x. if x = 0 then 0 else 1 / x)) M)),
      median_filter = (\<lambda>xs size. xs)\<rparr>"

definition example_tsm_observation :: "vec \<Rightarrow> vec \<Rightarrow> real \<Rightarrow> tsm_observation" where
  "example_tsm_observation v2 v3 t =
     (let P2 = [[1 - v2 ! 0 * v2 ! 0, - (v2 ! 0 * v2 ! 1)],
                [- (v2 ! 1 * v2 ! 0), 1 - v2 ! 1 * v2 ! 1]];
          P3 = [[1 - v3 ! 0 * v3 ! 0, - (v3 ! 0 * v3 ! 1), - (v3 ! 0 * v3 ! 2)],
                [- (v3 ! 1 * v3 ! 0), 1 - v3 ! 1 * v3 ! 1, - (v3 ! 1 * v3 ! 2)],
                [- (v3 ! 2 * v3 ! 0), - (v3 ! 2 * v3 ! 1), 1 - v3 ! 2 * v3 ! 2]];
          A2 = map2 (\<lambda>row b. row @ [b]) P2 (matvec P2 [0, 0]);
          A3 = map2 (\<lambda>row b. row @ [b]) P3 (matvec P3 [0, 0, 35]);
          l = \<lparr>origin = [0, 0, 35], direction = v3\<rparr>;
          c = \<lparr>circle_center = [0, 0, 3.5], normal = v3, radius = 1\<rparr>
      in \<lparr>aux_2d = A2, aux_3d = (A3, A3),
          gaze_2d = \<lparr>origin = [0, 0], direction = v2\<rparr>,
          Dierkes_lines = (l, l), circle_3d_pair = (c, c), obs_timestamp = t\<rparr>)"

text \<open>
  The observations of two model instances: two gaze directions for the first, one
  (along the optical axis) for the second.
\<close>

definition observations_a :: "tsm_observation list" where
  "observations_a =
     [example_tsm_observation [1, 0] [1, 0, 0] 1, example_tsm_observation [0, 1] [0, 1, 0] 2]"

definition observations_b :: "tsm_observation list" where
  "observations_b = [example_tsm_observation [0, 0] [0, 0, 1] 1.5]"

text \<open>
  One observation of another instance whose gaze is across the optical axis; a lone
  observation; and two observations passed with the later one first.
\<close>

definition observations_c :: "tsm_observation list" where
  "observations_c = [example_tsm_observation [0, 0] [1, 0, 0] 1.5]"

definition observations_single :: "tsm_observation list" where
  "observations_single = [example_tsm_observation [1, 0] [1, 0, 0] 1]"

definition observations_unordered :: "tsm_observation list" where
  "observations_unordered =
     [example_tsm_observation [0, 0] [0, 0, 1] 2, example_tsm_observation [1, 0] [1, 0, 0] 1]"

section \<open>Theorems\<close>

subsection \<open>C4: the update schedule\<close>

text \<open>
  C4, as stated, fails in its steady-phase clause: the first call after the
  warmup window returns true whatever the time elapsed since the last call that
  returned true. With an update interval of 10 and a warmup of 5, the calls at times
  0, 4 and 5 all return true; the third is outside the warmup window (5 - 0 is not
  below 5) and only 1 after the last true-returning call.
\<close>

theorem schedule_steady_counterexample:
  "fst (run_schedule (new_schedule 10 5) [IsUpdateDue 0, IsUpdateDue 4, IsUpdateDue 5])
     = [(0, True), (4, True), (5, True)]
   \<and> \<not> ((5::real) - 0 < 5)
   \<and> last_true_time [(0, True), (4, True)] = Some 4
   \<and> \<not> ((5::real) - 4 > 10)"
  by (simp add: is_update_due_def new_schedule_def last_true_time_def)

text \<open>
  C4 (amended): on a schedule that is not paused, the first call returns true and
  starts the warmup; a call less than the warmup duration after the first call
  returns true and changes nothing; after the warmup window a call returns true
  exactly when \<open>last_update\<close> is unset (no true-returning call outside the warmup
  window since construction or the last \<^verbatim>\<open>resume()\<close>) or the time elapsed since
  \<open>last_update\<close> exceeds the update interval, and a true-returning call sets
  \<open>last_update\<close> to its time, so that a second call less than the interval later
  returns false. While paused every call returns false and the state is unchanged,
  \<^verbatim>\<open>pause()\<close> keeps both timers, and the call after \<^verbatim>\<open>resume()\<close> returns true.
\<close>

theorem schedule_is_update_due:
  "(\<not> paused s \<and> warmup_start s = None \<longrightarrow>
      is_update_due s t = (True, s\<lparr>warmup_start := Some t\<rparr>))
   \<and> (\<not> paused s \<and> warmup_start s = Some ws \<and> t - ws < warmup_duration s \<longrightarrow>
      is_update_due s t = (True, s))
   \<and> (\<not> paused s \<and> warmup_start s = Some ws \<and> \<not> t - ws < warmup_duration s \<longrightarrow>
      fst (is_update_due s t)
        = (case last_update s of None \<Rightarrow> True | Some lu \<Rightarrow> t - lu > update_interval s)
      \<and> (fst (is_update_due s t) \<longrightarrow>
           snd (is_update_due s t) = s\<lparr>last_update := Some t\<rparr>
           \<and> (\<forall>t'. \<not> t' - ws < warmup_duration s \<and> \<not> t' - t > update_interval s \<longrightarrow>
                 is_update_due (snd (is_update_due s t)) t'
                   = (False, snd (is_update_due s t))))
      \<and> (\<not> fst (is_update_due s t) \<longrightarrow> snd (is_update_due s t) = s))
   \<and> (paused s \<longrightarrow> is_update_due s t = (False, s))
   \<and> warmup_start (pause s) = warmup_start s
   \<and> last_update (pause s) = last_update s
   \<and> is_update_due (pause s) t = (False, pause s)
   \<and> fst (is_update_due (resume s) t)"
  by (auto simp: is_update_due_def pause_def resume_def split: option.splits)

theorem schedule_is_update_due_witness:
  "is_update_due (new_schedule 10 5) 0
     = (True, (new_schedule 10 5)\<lparr>warmup_start := Some 0\<rparr>)
   \<and> is_update_due ((new_schedule 10 5)\<lparr>warmup_start := Some 0\<rparr>) 4
     = (True, (new_schedule 10 5)\<lparr>warmup_start := Some 0\<rparr>)
   \<and> is_update_due ((new_schedule 10 5)\<lparr>warmup_start := Some 0\<rparr>) 5
     = (True, (new_schedule 10 5)\<lparr>warmup_start := Some 0, last_update := Some 5\<rparr>)
   \<and> is_update_due ((new_schedule 10 5)\<lparr>warmup_start := Some 0, last_update := Some 5\<rparr>) 9
     = (False, (new_schedule 10 5)\<lparr>warmup_start := Some 0, last_update := Some 5\<rparr>)
   \<and> is_update_due (pause (new_schedule 10 5)) 7 = (False, pause (new_schedule 10 5))"
  using schedule_is_update_due [of "new_schedule 10 5" 0 0]
    schedule_is_update_due [of "(new_schedule 10 5)\<lparr>warmup_start := Some 0\<rparr>" 0 4]
    schedule_is_update_due [of "(new_schedule 10 5)\<lparr>warmup_start := Some 0\<rparr>" 0 5]
    schedule_is_update_due [of "pause (new_schedule 10 5)" 0 7]
  by (simp add: new_schedule_def pause_def is_update_due_def)

subsection \<open>C3: the two ellipse extractions\<close>

text \<open>
  C3, as stated, fails: for the datum with center (100, 50), axes (10, 20) and angle
  45 degrees at resolution 192 x 192, the detector's ellipse has center (4, -46) and
  the two-sphere model's has center (4, 46), and their angles differ by a quarter
  turn, so they do not describe the same orientation.
\<close>

theorem extract_ellipse_counterexample:
  "ellipse_center (obs_ellipse (extract_observation
       \<lparr>focal_length = 283, resolution = (192, 192)\<rparr>
       \<lparr>datum_center = (100, 50), datum_axes = (10, 20), datum_angle = 45,
        datum_confidence = 1, datum_timestamp = 0\<rparr>)) = [4, - 46]
   \<and> ellipse_center (extract_ellipse
       \<lparr>tsm_focal_length = 283, tsm_resolution = (192, 192), maxlen = 10000\<rparr>
       \<lparr>datum_center = (100, 50), datum_axes = (10, 20), datum_angle = 45,
        datum_confidence = 1, datum_timestamp = 0\<rparr>) = [4, 46]
   \<and> \<not> same_orientation
       (angle (obs_ellipse (extract_observation
          \<lparr>focal_length = 283, resolution = (192, 192)\<rparr>
          \<lparr>datum_center = (100, 50), datum_axes = (10, 20), datum_angle = 45,
           datum_confidence = 1, datum_timestamp = 0\<rparr>)))
       (angle (extract_ellipse
          \<lparr>tsm_focal_length = 283, tsm_resolution = (192, 192), maxlen = 10000\<rparr>
          \<lparr>datum_center = (100, 50), datum_axes = (10, 20), datum_angle = 45,
           datum_confidence = 1, datum_timestamp = 0\<rparr>))"
proof -
  have "(- 45 * pi / 180) - (- 135 * pi / 180) = pi / 2"
    by simp
  then have "sin ((- 45 * pi / 180) - (- 135 * pi / 180)) = 1"
    by (simp only: sin_pi_half)
  then show ?thesis
    by (simp add: extract_observation_def extract_ellipse_def same_orientation_def)
qed

text \<open>
  C3 (amended): for the same datum and resolution the two routines produce the same
  horizontal center coordinate and the same half axes, while the two-sphere model's
  ellipse has the negated vertical center coordinate and the angle
  \<open>- a - pi\<close>, where \<open>a\<close> is the detector's angle: it is the mirror image
  of the detector's ellipse in the horizontal axis (its orientation is that of the
  negated angle), not the same ellipse.
\<close>

theorem extract_ellipse_mirror:
  "ellipse_center (extract_ellipse \<lparr>tsm_focal_length = f, tsm_resolution = res, maxlen = n\<rparr> d)
     = [hd (ellipse_center (obs_ellipse (extract_observation \<lparr>focal_length = f, resolution = res\<rparr> d))),
        - (ellipse_center (obs_ellipse (extract_observation \<lparr>focal_length = f, resolution = res\<rparr> d)) ! 1)]
   \<and> minor_radius (extract_ellipse \<lparr>tsm_focal_length = f, tsm_resolution = res, maxlen = n\<rparr> d)
     = minor_radius (obs_ellipse (extract_observation \<lparr>focal_length = f, resolution = res\<rparr> d))
   \<and> major_radius (extract_ellipse \<lparr>tsm_focal_length = f, tsm_resolution = res, maxlen = n\<rparr> d)
     = major_radius (obs_ellipse (extract_observation \<lparr>focal_length = f, resolution = res\<rparr> d))
   \<and> angle (extract_ellipse \<lparr>tsm_focal_length = f, tsm_resolution = res, maxlen = n\<rparr> d)
     = - angle (obs_ellipse (extract_observation \<lparr>focal_length = f, resolution = res\<rparr> d)) - pi
   \<and> same_orientation
       (angle (extract_ellipse \<lparr>tsm_focal_length = f, tsm_resolution = res, maxlen = n\<rparr> d))
       (- angle (obs_ellipse (extract_observation \<lparr>focal_length = f, resolution = res\<rparr> d)))"
  by (cases res)
    (simp add: extract_observation_def extract_ellipse_def same_orientation_def field_simps)

subsection \<open>The pupil prediction of the detector\<close>

lemma predict_from_kalman_filter_fields:
  "det_settings (snd (predict_from_kalman_filter env d ts)) = det_settings d"
  "det_camera (snd (predict_from_kalman_filter env d ts)) = det_camera d"
  "short_term_model (snd (predict_from_kalman_filter env d ts)) = short_term_model d"
  "long_term_model (snd (predict_from_kalman_filter env d ts)) = long_term_model d"
  "kalman_filter (snd (predict_from_kalman_filter env d ts)) = kalman_filter d @ [Predict ts]"
  by (simp_all add: predict_from_kalman_filter_def Let_def split: prod.splits)

lemma predict_from_3d_search_kalman:
  "predict_from_3d_search env (snd (predict_from_kalman_filter env d ts)) frame c
     = predict_from_3d_search env d frame c"
  by (simp add: predict_from_3d_search_def predict_from_kalman_filter_fields Let_def
        split: sum.splits prod.splits option.splits)

text \<open>
  C5: when the confidence of the observation exceeds the swirski threshold, the
  call returns the circle with the normal of the short-term model's prediction and
  the center and radius of the long-term model's prediction, and the observation is
  returned as it was; otherwise the 3D search runs on the frame with the circle of
  the Kalman prediction as its best guess: when it raises, so does the call, and when
  it returns a circle and a confidence, the call returns that circle and the
  observation with its confidence overwritten by that confidence.
\<close>

theorem predict_pupil_circle_branches:
  "(confidence obs > threshold_swirski (det_settings d) \<longrightarrow>
      (\<exists>d'. predict_pupil_circle env d obs frame =
         Inr (\<lparr>circle_center = circle_center (tier_predict_pupil_circle env (long_term_model d) obs),
               normal = normal (tier_predict_pupil_circle env (short_term_model d) obs),
               radius = radius (tier_predict_pupil_circle env (long_term_model d) obs)\<rparr>,
              obs, d')))
   \<and> (\<not> confidence obs > threshold_swirski (det_settings d) \<longrightarrow>
      (case predict_from_3d_search env d frame
              (fst (predict_from_kalman_filter env d (timestamp obs))) of
         Inl e \<Rightarrow> predict_pupil_circle env d obs frame = Inl e
       | Inr (pupil_circle, confidence_3d_search) \<Rightarrow>
           (\<exists>d'. predict_pupil_circle env d obs frame =
              Inr (pupil_circle, obs\<lparr>confidence := confidence_3d_search\<rparr>, d'))))"
proof -
  obtain k d1 where k: "predict_from_kalman_filter env d (timestamp obs) = (k, d1)"
    by (cases "predict_from_kalman_filter env d (timestamp obs)")
  have d1: "det_settings d1 = det_settings d" "short_term_model d1 = short_term_model d"
    "long_term_model d1 = long_term_model d"
    "predict_from_3d_search env d1 frame k = predict_from_3d_search env d frame k"
    using predict_from_kalman_filter_fields [of env d "timestamp obs"]
      predict_from_3d_search_kalman [of env d "timestamp obs" frame k]
    by (simp_all add: k)
  show ?thesis
    by (auto simp: predict_pupil_circle_def k d1 Let_def split: sum.splits prod.splits)
qed

theorem predict_pupil_circle_branches_witness:
  "(\<exists>d'. predict_pupil_circle example_env example_detector (example_observation 5 0.9) [] =
      Inr (\<lparr>circle_center = [0, 0, 35], normal = [0, 0, - 1], radius = 2\<rparr>,
           example_observation 5 0.9, d'))
   \<and> (\<exists>d'. predict_pupil_circle example_env example_detector (example_observation 5 0.5)
             [1, 2, 3, 4] =
      Inr (\<lparr>circle_center = [0, 0, 25], normal = [0, 0, - 1], radius = 2\<rparr>,
           (example_observation 5 0.5)\<lparr>confidence := 1 / 2\<rparr>, d'))"
  using predict_pupil_circle_branches
          [where obs = "example_observation 5 0.9" and d = example_detector
             and env = example_env and frame = "[]"]
        predict_pupil_circle_branches
          [where obs = "example_observation 5 0.5" and d = example_detector
             and env = example_env and frame = "[1, 2, 3, 4]"]
  by (simp add: example_env_def example_detector_def example_observation_def
        example_settings_def example_tier_def predict_from_3d_search_def
        predict_from_kalman_filter_def vadd_def smul_def clip_def)

text \<open>
  C6: the 3D search returns the null circle with confidence 0, and does not raise,
  when the best guess is null (nothing else is called) and when the edge extraction
  returns no edges. When there are edges and the sphere search returns, the returned
  circle is the winning circle, at the eye radius from the long-term sphere center
  along the found gaze vector; its confidence is 0 when that circle is null or its
  projection fails, and otherwise (for a positive circumference) the number of final
  edges divided by the circumference of the projected ellipse, clipped to the
  interval from 0 to 1.
\<close>

theorem predict_from_3d_search_confidence:
  "(is_null env best_guess \<longrightarrow>
      predict_from_3d_search env d frame best_guess = Inr (Circle_null env, 0))
   \<and> (\<not> is_null env best_guess \<and>
       get_edges env frame (normal best_guess) (radius best_guess)
         (sphere_center (long_term_model d)) (EYE_RADIUS_DEFAULT env)
         (focal_length (det_camera d)) (resolution (det_camera d)) 2.5 = Inr [] \<longrightarrow>
      predict_from_3d_search env d frame best_guess = Inr (Circle_null env, 0))
   \<and> (\<not> is_null env best_guess \<and>
       get_edges env frame (normal best_guess) (radius best_guess)
         (sphere_center (long_term_model d)) (EYE_RADIUS_DEFAULT env)
         (focal_length (det_camera d)) (resolution (det_camera d)) 2.5 = Inr edges \<and>
       edges \<noteq> [] \<and>
       search_on_sphere env edges (normal best_guess) (radius best_guess)
         (sphere_center (long_term_model d)) (EYE_RADIUS_DEFAULT env)
         (focal_length (det_camera d)) (resolution (det_camera d))
         = Inr (gaze_vector, pupil_radius, final_edges, edges_on_sphere) \<and>
       pupil_circle =
         \<lparr>circle_center = vadd (sphere_center (long_term_model d))
                             (smul (EYE_RADIUS_DEFAULT env) gaze_vector),
          normal = gaze_vector, radius = pupil_radius\<rparr> \<longrightarrow>
      (is_null env pupil_circle \<longrightarrow>
         predict_from_3d_search env d frame best_guess = Inr (pupil_circle, 0))
      \<and> (\<not> is_null env pupil_circle \<and>
          project_circle_into_image_plane env pupil_circle (focal_length (det_camera d)) False
            (fst (resolution (det_camera d))) (snd (resolution (det_camera d))) = Inr None \<longrightarrow>
         predict_from_3d_search env d frame best_guess = Inr (pupil_circle, 0))
      \<and> (\<not> is_null env pupil_circle \<and>
          project_circle_into_image_plane env pupil_circle (focal_length (det_camera d)) False
            (fst (resolution (det_camera d))) (snd (resolution (det_camera d)))
            = Inr (Some ellipse_2d) \<and>
          0 < circumference env ellipse_2d \<longrightarrow>
         predict_from_3d_search env d frame best_guess
           = Inr (pupil_circle,
                  min (real (length final_edges) / circumference env ellipse_2d) 1)
         \<and> 0 \<le> min (real (length final_edges) / circumference env ellipse_2d) 1
         \<and> min (real (length final_edges) / circumference env ellipse_2d) 1 \<le> 1))"
proof -
  have q: "clip (real n / c) 0 1 = min (real n / c) 1 \<and> 0 \<le> min (real n / c) 1"
    if "0 < c" for n :: nat and c :: real
  proof -
    have "0 \<le> real n / c" using that by simp
    then show ?thesis by (simp add: clip_def max_def)
  qed
  show ?thesis
    by (auto simp: predict_from_3d_search_def Let_def q)
qed

theorem predict_from_3d_search_confidence_witness:
  "predict_from_3d_search example_env example_detector [1, 2, 3, 4]
      \<lparr>circle_center = [0, 0, 0], normal = [0, 0, 0], radius = 0\<rparr>
     = Inr (\<lparr>circle_center = [0, 0, 0], normal = [0, 0, 0], radius = 0\<rparr>, 0)
   \<and> predict_from_3d_search example_env example_detector []
      \<lparr>circle_center = [0, 0, 25], normal = [0, 0, - 1], radius = 3\<rparr>
     = Inr (\<lparr>circle_center = [0, 0, 0], normal = [0, 0, 0], radius = 0\<rparr>, 0)
   \<and> predict_from_3d_search example_env example_detector [1, 2, 3, 4]
      \<lparr>circle_center = [0, 0, 25], normal = [0, 0, - 1], radius = 3\<rparr>
     = Inr (\<lparr>circle_center = [0, 0, 25], normal = [0, 0, - 1], radius = 2\<rparr>, 1 / 2)
   \<and> predict_from_3d_search example_env example_detector [1, 2, 3, 4, 5, 6, 7, 8, 9]
      \<lparr>circle_center = [0, 0, 25], normal = [0, 0, - 1], radius = 3\<rparr>
     = Inr (\<lparr>circle_center = [0, 0, 25], normal = [0, 0, - 1], radius = 2\<rparr>, 1)"
  using predict_from_3d_search_confidence
          [where env = example_env and d = example_detector and frame = "[1, 2, 3, 4]"
             and best_guess = "\<lparr>circle_center = [0, 0, 0], normal = [0, 0, 0], radius = 0\<rparr>"]
        predict_from_3d_search_confidence
          [where env = example_env and d = example_detector and frame = "[]"
             and best_guess = "\<lparr>circle_center = [0, 0, 25], normal = [0, 0, - 1], radius = 3\<rparr>"]
        predict_from_3d_search_confidence
          [where env = example_env and d = example_detector and frame = "[1, 2, 3, 4]"
             and best_guess = "\<lparr>circle_center = [0, 0, 25], normal = [0, 0, - 1], radius = 3\<rparr>"
             and edges = "[1, 2, 3, 4]" and gaze_vector = "[0, 0, - 1]" and pupil_radius = 2
             and final_edges = "[1, 2, 3, 4]" and edges_on_sphere = "[1, 2, 3, 4]"
             and pupil_circle = "\<lparr>circle_center = [0, 0, 25], normal = [0, 0, - 1], radius = 2\<rparr>"
             and ellipse_2d = "\<lparr>ellipse_center = [0, 0], minor_radius = 1, major_radius = 1,
                                angle = 0\<rparr>"]
        predict_from_3d_search_confidence
          [where env = example_env and d = example_detector
             and frame = "[1, 2, 3, 4, 5, 6, 7, 8, 9]"
             and best_guess = "\<lparr>circle_center = [0, 0, 25], normal = [0, 0, - 1], radius = 3\<rparr>"
             and edges = "[1, 2, 3, 4, 5, 6, 7, 8, 9]" and gaze_vector = "[0, 0, - 1]"
             and pupil_radius = 2 and final_edges = "[1, 2, 3, 4, 5, 6, 7, 8, 9]"
             and edges_on_sphere = "[1, 2, 3, 4, 5, 6, 7, 8, 9]"
             and pupil_circle = "\<lparr>circle_center = [0, 0, 25], normal = [0, 0, - 1], radius = 2\<rparr>"
             and ellipse_2d = "\<lparr>ellipse_center = [0, 0], minor_radius = 1, major_radius = 1,
                                angle = 0\<rparr>"]
  by (simp add: example_env_def example_detector_def example_tier_def vadd_def smul_def)

text \<open>
  C7, as stated, fails in the direction from the confidence to the correction: with
  the default thresholds, an observation of confidence 0.99 (above the kalman
  threshold 0.98) for which both tiers predict the null circle leaves the Kalman
  filter with the prediction call only; no correction is made, because
  \<^verbatim>\<open>_correct_kalman_filter\<close> returns at once on a null circle.
\<close>

theorem kalman_correction_counterexample:
  "confidence (example_observation 0 0.99) > threshold_kalman (det_settings example_detector)
   \<and> (case predict_pupil_circle example_env example_detector (example_observation 0 0.99) [] of
         Inl e \<Rightarrow> False
       | Inr (pupil_circle, obs', d') \<Rightarrow>
           confidence obs' = 0.99
           \<and> pupil_circle = \<lparr>circle_center = [0, 0, 0], normal = [0, 0, 0], radius = 0\<rparr>
           \<and> kalman_filter d' = [Predict 0])"
  by (simp add: predict_pupil_circle_def predict_from_kalman_filter_def
        correct_kalman_filter_def example_env_def example_detector_def
        example_observation_def example_settings_def example_tier_def Let_def)

text \<open>
  C7 (amended): when the call returns, the Kalman filter has received the prediction
  call for the timestamp of the observation, followed by one correction call exactly
  when the confidence of the returned observation (overwritten or not) exceeds the
  kalman threshold and the returned pupil circle is not null; the measurement is the
  spherical representation of that circle. Nothing else is called on the filter.
\<close>

theorem kalman_correction_iff:
  "predict_pupil_circle env d obs frame = Inr (pupil_circle, obs', d') \<Longrightarrow>
   kalman_filter d' =
     kalman_filter d @ [Predict (timestamp obs)] @
     (if confidence obs' > threshold_kalman (det_settings d) \<and> \<not> is_null env pupil_circle
      then [case spherical_representation env pupil_circle of
              (phi, theta, r) \<Rightarrow> Correct phi theta r]
      else [])"
proof -
  assume r: "predict_pupil_circle env d obs frame = Inr (pupil_circle, obs', d')"
  obtain k d1 where k: "predict_from_kalman_filter env d (timestamp obs) = (k, d1)"
    by (cases "predict_from_kalman_filter env d (timestamp obs)")
  have d1: "det_settings d1 = det_settings d"
    "kalman_filter d1 = kalman_filter d @ [Predict (timestamp obs)]"
    using predict_from_kalman_filter_fields [of env d "timestamp obs"] by (simp_all add: k)
  have d': "d' = (if confidence obs' > threshold_kalman (det_settings d)
                  then correct_kalman_filter env d1 pupil_circle else d1)"
    using r by (auto simp: predict_pupil_circle_def k d1 Let_def split: sum.splits if_splits)
  show ?thesis
    by (simp add: d' d1 correct_kalman_filter_def split: prod.splits)
qed

theorem kalman_correction_iff_witness:
  "predict_pupil_circle example_env example_detector (example_observation 5 0.99) []
     = Inr (\<lparr>circle_center = [0, 0, 35], normal = [0, 0, - 1], radius = 2\<rparr>,
            example_observation 5 0.99,
            example_detector\<lparr>kalman_filter := [Predict 0, Correct 0 0 2]\<rparr>)
   \<and> kalman_filter (example_detector\<lparr>kalman_filter := [Predict 0, Correct 0 0 2]\<rparr>)
     = [Predict 0, Correct 0 0 2]"
proof -
  have r: "predict_pupil_circle example_env example_detector (example_observation 5 0.99) []
     = Inr (\<lparr>circle_center = [0, 0, 35], normal = [0, 0, - 1], radius = 2\<rparr>,
            example_observation 5 0.99,
            example_detector\<lparr>kalman_filter := [Predict 0, Correct 0 0 2]\<rparr>)"
    by (simp add: predict_pupil_circle_def predict_from_kalman_filter_def
          correct_kalman_filter_def example_env_def example_detector_def
          example_observation_def example_settings_def example_tier_def Let_def)
  show ?thesis
    using r kalman_correction_iff [OF r] by simp
qed

subsection \<open>C1: a numerical failure while the models are updated\<close>

text \<open>
  C1, as stated, fails: on the freshly reset detector both schedules are due at the
  first frame; the ultra-long-term solve converges to (1, 2, 3) and the long-term
  solve, which takes that center as its prior, does not converge. The failure is
  logged, and the ultra-long-term sphere center (and its corrected center), refitted
  before the failing step, is no longer the (0, 0, 35) it was before the call.
\<close>

theorem update_models_atomicity_counterexample:
  "log (update_models example_env example_detector (example_observation 5 0.99))
     = [''Error updating models:'']
   \<and> sphere_center (ultra_long_term_model example_detector) = [0, 0, 35]
   \<and> sphere_center (ultra_long_term_model
        (update_models example_env example_detector (example_observation 5 0.99))) = [1, 2, 3]
   \<and> corrected_sphere_center (ultra_long_term_model
        (update_models example_env example_detector (example_observation 5 0.99))) = [1, 2, 3]"
  by (simp add: update_models_def fit_models_def add_observations_def
        estimate_sphere_center_def is_update_due_def new_schedule_def
        example_env_def example_detector_def example_tier_def example_observation_def)

lemma fit_models_raises:
  assumes "fit_models env d0 obs = Inl (e, d1)"
  shows "short_term_model d1 = short_term_model d0" and "log d1 = log d0"
  using assms
  by (auto simp: fit_models_def Let_def estimate_sphere_center_def
        split: prod.splits sum.splits if_splits)

text \<open>
  C1 (amended): in a cycle of \<^verbatim>\<open>update_models\<close> in which all three storages are
  non-empty, a numerical failure is caught and logged, the call returns, and the tier
  whose solve failed and the tiers fitted after it keep their sphere centers (and
  corrected centers), while every refit completed before the failing step persists:
  when the ultra-long-term solve fails no tier changes; when the long-term solve
  fails the long-term and short-term tiers are unchanged and the ultra-long-term
  tier is as its refit, if one was due, left it; when the short-term solve fails the
  short-term tier is unchanged and the ultra-long-term and long-term tiers are as
  their refits, where due, left them. The schedules keep the state that the due
  checks made before the failure gave them. Whatever the failing step, the
  short-term tier is unchanged. (\<open>d0\<close> is the detector once the observation is added
  to the storages; \<open>ult_refitted\<close> and \<open>long_refitted\<close> are the two tiers after the
  refits that were due.)
\<close>

theorem update_models_failure:
  assumes "d0 = add_observations env d obs"
    and "0 < n_observations env (storage (short_term_model d0))"
    and "0 < n_observations env (storage (long_term_model d0))"
    and "0 < n_observations env (storage (ultra_long_term_model d0))"
    and "due_ult = fst (is_update_due (ult_long_term_schedule d0) (timestamp obs))"
    and "due_long = fst (is_update_due (long_term_schedule d0) (timestamp obs))"
    and "ult_refitted =
           (if due_ult
            then (ultra_long_term_model d0)
                   \<lparr>sphere_center := three_dim est_ult,
                    corrected_sphere_center := correct_sphere_center env (three_dim est_ult)\<rparr>
            else ultra_long_term_model d0)"
    and "long_refitted =
           (if due_long
            then (long_term_model d0)
                   \<lparr>sphere_center := three_dim est_long,
                    corrected_sphere_center := correct_sphere_center env (three_dim est_long)\<rparr>
            else long_term_model d0)"
    and "long_term_estimate =
           (if due_long then est_long
            else \<lparr>projected = project_sphere_center env (sphere_center (long_term_model d0)),
                  three_dim = sphere_center (long_term_model d0)\<rparr>)"
    and "d' = update_models env d obs"
  shows "(due_ult \<and> solve_sphere_center env (ultra_long_term_model d0) None None 0 = Inl e \<longrightarrow>
            short_term_model d' = short_term_model d0
          \<and> long_term_model d' = long_term_model d0
          \<and> ultra_long_term_model d' = ultra_long_term_model d0
          \<and> ult_long_term_schedule d'
              = snd (is_update_due (ult_long_term_schedule d0) (timestamp obs))
          \<and> long_term_schedule d' = long_term_schedule d0
          \<and> log d' = log d @ [''Error updating models:''])
       \<and> ((due_ult \<longrightarrow>
             solve_sphere_center env (ultra_long_term_model d0) None None 0 = Inr est_ult) \<and>
           due_long \<and>
           solve_sphere_center env (long_term_model d0) None
             (Some (sphere_center ult_refitted)) 0.1 = Inl e \<longrightarrow>
            short_term_model d' = short_term_model d0
          \<and> long_term_model d' = long_term_model d0
          \<and> ultra_long_term_model d' = ult_refitted
          \<and> ult_long_term_schedule d'
              = snd (is_update_due (ult_long_term_schedule d0) (timestamp obs))
          \<and> long_term_schedule d'
              = snd (is_update_due (long_term_schedule d0) (timestamp obs))
          \<and> log d' = log d @ [''Error updating models:''])
       \<and> ((due_ult \<longrightarrow>
             solve_sphere_center env (ultra_long_term_model d0) None None 0 = Inr est_ult) \<and>
           (due_long \<longrightarrow>
             solve_sphere_center env (long_term_model d0) None
               (Some (sphere_center ult_refitted)) 0.1 = Inr est_long) \<and>
           solve_sphere_center env (short_term_model d0)
             (Some (projected long_term_estimate)) (Some (three_dim long_term_estimate))
             (sigmoid (mean_observation_circularity env (storage (short_term_model d0))))
             = Inl e \<longrightarrow>
            short_term_model d' = short_term_model d0
          \<and> long_term_model d' = long_refitted
          \<and> ultra_long_term_model d' = ult_refitted
          \<and> ult_long_term_schedule d'
              = snd (is_update_due (ult_long_term_schedule d0) (timestamp obs))
          \<and> long_term_schedule d'
              = snd (is_update_due (long_term_schedule d0) (timestamp obs))
          \<and> log d' = log d @ [''Error updating models:''])
       \<and> (fit_models env d0 obs = Inl (e, d1) \<longrightarrow>
            short_term_model d' = short_term_model d0
          \<and> log d' = log d @ [''Error updating models:''])"
proof -
  have l: "log d0 = log d"
    by (simp add: assms(1) add_observations_def)
  have u: "update_models env d obs =
      (case fit_models env d0 obs of
         Inl (e, d') \<Rightarrow> d'\<lparr>log := log d' @ [''Error updating models:'']\<rparr>
       | Inr d' \<Rightarrow> d')"
    using assms(2-4) by (simp add: update_models_def assms(1) [symmetric])
  obtain bu su where su: "is_update_due (ult_long_term_schedule d0) (timestamp obs) = (bu, su)"
    by (cases "is_update_due (ult_long_term_schedule d0) (timestamp obs)")
  obtain bl sl where sl: "is_update_due (long_term_schedule d0) (timestamp obs) = (bl, sl)"
    by (cases "is_update_due (long_term_schedule d0) (timestamp obs)")
  have c1: "short_term_model d' = short_term_model d0
          \<and> long_term_model d' = long_term_model d0
          \<and> ultra_long_term_model d' = ultra_long_term_model d0
          \<and> ult_long_term_schedule d'
              = snd (is_update_due (ult_long_term_schedule d0) (timestamp obs))
          \<and> long_term_schedule d' = long_term_schedule d0
          \<and> log d' = log d @ [''Error updating models:'']"
    if "due_ult" "solve_sphere_center env (ultra_long_term_model d0) None None 0 = Inl e"
    using that
    by (simp add: assms(5,10) u l su fit_models_def estimate_sphere_center_def)
  have c2: "short_term_model d' = short_term_model d0
          \<and> long_term_model d' = long_term_model d0
          \<and> ultra_long_term_model d' = ult_refitted
          \<and> ult_long_term_schedule d'
              = snd (is_update_due (ult_long_term_schedule d0) (timestamp obs))
          \<and> long_term_schedule d'
              = snd (is_update_due (long_term_schedule d0) (timestamp obs))
          \<and> log d' = log d @ [''Error updating models:'']"
    if "due_ult \<longrightarrow>
          solve_sphere_center env (ultra_long_term_model d0) None None 0 = Inr est_ult"
      "due_long"
      "solve_sphere_center env (long_term_model d0) None
             (Some (sphere_center ult_refitted)) 0.1 = Inl e"
    using that
    by (cases bu)
      (simp_all add: assms(5-7,10) u l su sl fit_models_def estimate_sphere_center_def)
  have c3: "short_term_model d' = short_term_model d0
          \<and> long_term_model d' = long_refitted
          \<and> ultra_long_term_model d' = ult_refitted
          \<and> ult_long_term_schedule d'
              = snd (is_update_due (ult_long_term_schedule d0) (timestamp obs))
          \<and> long_term_schedule d'
              = snd (is_update_due (long_term_schedule d0) (timestamp obs))
          \<and> log d' = log d @ [''Error updating models:'']"
    if "due_ult \<longrightarrow>
          solve_sphere_center env (ultra_long_term_model d0) None None 0 = Inr est_ult"
      "due_long \<longrightarrow>
          solve_sphere_center env (long_term_model d0) None
             (Some (sphere_center ult_refitted)) 0.1 = Inr est_long"
      "solve_sphere_center env (short_term_model d0)
             (Some (projected long_term_estimate)) (Some (three_dim long_term_estimate))
             (sigmoid (mean_observation_circularity env (storage (short_term_model d0))))
             = Inl e"
    using that
    by (cases bu; cases bl)
      (simp_all add: assms(5-10) u l su sl fit_models_def estimate_sphere_center_def)
  have c4: "short_term_model d' = short_term_model d0
          \<and> log d' = log d @ [''Error updating models:'']"
    if "fit_models env d0 obs = Inl (e, d1)"
    using that fit_models_raises [OF that] by (simp add: assms(10) u l)
  show ?thesis
    using c1 c2 c3 c4 by blast
qed


theorem update_models_failure_witness:
  "0 < n_observations example_env (storage (short_term_model
         (add_observations example_env example_detector (example_observation 5 0.99))))
   \<and> fst (is_update_due (ult_long_term_schedule example_detector) 0)
   \<and> fst (is_update_due (long_term_schedule example_detector) 0)
   \<and> short_term_model (update_models example_env example_detector (example_observation 5 0.99))
       = short_term_model
           (add_observations example_env example_detector (example_observation 5 0.99))
   \<and> long_term_model (update_models example_env example_detector (example_observation 5 0.99))
       = long_term_model
           (add_observations example_env example_detector (example_observation 5 0.99))
   \<and> sphere_center (long_term_model
        (update_models example_env example_detector (example_observation 5 0.99))) = [0, 0, 35]
   \<and> sphere_center (ultra_long_term_model
        (update_models example_env example_detector (example_observation 5 0.99))) = [1, 2, 3]
   \<and> log (update_models example_env example_detector (example_observation 5 0.99))
       = [''Error updating models:'']
   \<and> sphere_center (short_term_model
        (update_models example_env_short_term_fails example_detector
           (example_observation 5 0.99))) = [0, 0, 35]
   \<and> sphere_center (long_term_model
        (update_models example_env_short_term_fails example_detector
           (example_observation 5 0.99))) = [4, 5, 6]
   \<and> corrected_sphere_center (long_term_model
        (update_models example_env_short_term_fails example_detector
           (example_observation 5 0.99))) = [4, 5, 6]
   \<and> sphere_center (ultra_long_term_model
        (update_models example_env_short_term_fails example_detector
           (example_observation 5 0.99))) = [1, 2, 3]
   \<and> log (update_models example_env_short_term_fails example_detector
        (example_observation 5 0.99)) = [''Error updating models:'']"
proof -
  let ?obs = "example_observation 5 0.99"
  let ?d0 = "add_observations example_env example_detector ?obs"
  let ?e0 = "add_observations example_env_short_term_fails example_detector ?obs"
  have n: "0 < n_observations example_env (storage (short_term_model ?d0))"
    "0 < n_observations example_env (storage (long_term_model ?d0))"
    "0 < n_observations example_env (storage (ultra_long_term_model ?d0))"
    by (simp_all add: add_observations_def example_env_def)
  have m: "0 < n_observations example_env_short_term_fails (storage (short_term_model ?e0))"
    "0 < n_observations example_env_short_term_fails (storage (long_term_model ?e0))"
    "0 < n_observations example_env_short_term_fails (storage (ultra_long_term_model ?e0))"
    by (simp_all add: add_observations_def example_env_short_term_fails_def example_env_def)
  have s: "fst (is_update_due (ult_long_term_schedule example_detector) 0)"
    "fst (is_update_due (long_term_schedule example_detector) 0)"
    by (simp_all add: is_update_due_def example_detector_def new_schedule_def)
  have a: "short_term_model (update_models example_env example_detector ?obs)
       = short_term_model ?d0
   \<and> long_term_model (update_models example_env example_detector ?obs)
       = long_term_model ?d0
   \<and> sphere_center (long_term_model (update_models example_env example_detector ?obs))
       = [0, 0, 35]
   \<and> sphere_center (ultra_long_term_model (update_models example_env example_detector ?obs))
       = [1, 2, 3]
   \<and> log (update_models example_env example_detector ?obs) = [''Error updating models:'']"
    using s
      update_models_failure [OF refl n refl refl refl refl refl refl,
        where e = LinAlgError and est_ult = "\<lparr>projected = [0, 0], three_dim = [1, 2, 3]\<rparr>",
        THEN conjunct2, THEN conjunct1]
    by (simp add: add_observations_def example_env_def example_detector_def
          example_tier_def example_observation_def)
  have b: "sphere_center (short_term_model
        (update_models example_env_short_term_fails example_detector ?obs)) = [0, 0, 35]
   \<and> sphere_center (long_term_model
        (update_models example_env_short_term_fails example_detector ?obs)) = [4, 5, 6]
   \<and> corrected_sphere_center (long_term_model
        (update_models example_env_short_term_fails example_detector ?obs)) = [4, 5, 6]
   \<and> sphere_center (ultra_long_term_model
        (update_models example_env_short_term_fails example_detector ?obs)) = [1, 2, 3]
   \<and> log (update_models example_env_short_term_fails example_detector ?obs)
       = [''Error updating models:'']"
    using s
      update_models_failure [OF refl m refl refl refl refl refl refl,
        where e = LinAlgError and est_ult = "\<lparr>projected = [0, 0], three_dim = [1, 2, 3]\<rparr>"
          and est_long = "\<lparr>projected = [0, 0], three_dim = [4, 5, 6]\<rparr>",
        THEN conjunct2, THEN conjunct2, THEN conjunct1]
    by (simp add: add_observations_def example_env_short_term_fails_def example_env_def
          example_detector_def example_tier_def example_observation_def)
  show ?thesis
    using n(1) s a b
    by (simp add: add_observations_def example_detector_def example_tier_def)
qed

subsection \<open>C2: the pupil circle predicted by the two-sphere model\<close>

lemma norm_z: "norm [0, 0, z] = \<bar>z\<bar>"
  by (simp add: norm_def dot_def)

text \<open>
  C2, as stated, fails: for the unprojected circle of radius 2 centered at
  (0, 0, 50) (both members of the pair, so that the disambiguation returns it) and
  the sphere of radius 10 centered at (0, 0, 35), the nearest point on the sphere is
  (0, 0, 25) and the ratio of the distances is 25 / 50; the claim gives the radius
  2 * (25 / 50) = 1, the code returns the radius 1 / 2.
\<close>

theorem tsm_predict_pupil_circle_counterexample:
  "circle_bool example_geometry \<lparr>circle_center = [0, 0, 50], normal = [0, 0, - 1], radius = 2\<rparr>
   \<and> tsm_predict_pupil_circle example_geometry example_tsm
      (Inl (\<lparr>circle_center = [0, 0, 50], normal = [0, 0, - 1], radius = 2\<rparr>,
            \<lparr>circle_center = [0, 0, 50], normal = [0, 0, - 1], radius = 2\<rparr>)) True False
     = Inr \<lparr>circle_center = [0, 0, 25], normal = [0, 0, - 1], radius = 1 / 2\<rparr>
   \<and> radius \<lparr>circle_center = [0, 0, 50], normal = [0, 0, - 1], radius = 2\<rparr>
       * (norm [0, 0, 25]
          / norm (circle_center \<lparr>circle_center = [0, 0, 50], normal = [0, 0, - 1], radius = 2\<rparr>))
     = 1"
  by (simp add: tsm_predict_pupil_circle_def disambiguate_circle_3d_pair_def
        example_geometry_def example_tsm_def normalize_def norm_z vsub_def smul_def vadd_def
        Let_def)

text \<open>
  C2 (amended): for every disambiguated unprojected circle that counts as true
  (from a given pair, or from a pupil datum), the returned pupil circle has as its
  center the nearest point on the eyeball sphere to the line from the origin along
  the normalized center of the unprojected circle, and its radius is the ratio of the
  distance of that point from the origin to the distance of the unprojected circle's
  center from the origin; the radius of the unprojected circle does not enter. For a
  center other than the origin, the returned radius is the unprojected radius times
  that ratio exactly when the unprojected radius is 1 or the nearest point is the
  origin.
\<close>

theorem tsm_predict_pupil_circle_radius:
  assumes "(from_given \<and> input = Inl pair \<and> c = disambiguate_circle_3d_pair g m pair)
           \<or> (\<not> from_given \<and> input = Inr datum \<and> c = extract_unproject_disambiguate g m datum)"
    and "circle_bool g c"
    and "nearest = nearest_point_on_sphere_to_line g (tsm_sphere_center m)
                     (eye_radius_default g) [0, 0, 0] (normalize (circle_center c))"
  shows "\<exists>p. tsm_predict_pupil_circle g m input from_given use_unprojection = Inr p
             \<and> circle_center p = nearest
             \<and> radius p = norm nearest / norm (circle_center c)
             \<and> (norm (circle_center c) \<noteq> 0 \<longrightarrow>
                  (radius p = radius c * (norm nearest / norm (circle_center c))
                     \<longleftrightarrow> radius c = 1 \<or> norm nearest = 0))"
proof -
  let ?p = "\<lparr>circle_center = nearest,
             normal = (if use_unprojection then normal c
                       else normalize (vsub nearest (tsm_sphere_center m))),
             radius = norm nearest / norm (circle_center c)\<rparr>"
  have "tsm_predict_pupil_circle g m input from_given use_unprojection = Inr ?p"
    using assms by (auto simp: tsm_predict_pupil_circle_def Let_def)
  moreover have "radius ?p = radius c * (norm nearest / norm (circle_center c))
                   \<longleftrightarrow> radius c = 1 \<or> norm nearest = 0"
    if "norm (circle_center c) \<noteq> 0"
    using that by (auto simp: field_simps)
  ultimately show ?thesis
    by (intro exI [of _ ?p]) simp
qed

theorem tsm_predict_pupil_circle_radius_witness:
  "circle_bool example_geometry \<lparr>circle_center = [0, 0, 50], normal = [0, 0, - 1], radius = 1\<rparr>
   \<and> (\<exists>p. tsm_predict_pupil_circle example_geometry example_tsm
         (Inl (\<lparr>circle_center = [0, 0, 50], normal = [0, 0, - 1], radius = 1\<rparr>,
               \<lparr>circle_center = [0, 0, 50], normal = [0, 0, - 1], radius = 1\<rparr>)) True False = Inr p
        \<and> circle_center p = [0, 0, 25] \<and> radius p = 1 / 2)"
proof -
  let ?c = "\<lparr>circle_center = [0, 0, 50], normal = [0, 0, - 1], radius = 1\<rparr>"
  have d: "?c = disambiguate_circle_3d_pair example_geometry example_tsm (?c, ?c)"
    by (simp add: disambiguate_circle_3d_pair_def Let_def)
  have b: "circle_bool example_geometry ?c"
    by (simp add: example_geometry_def)
  have n: "[0, 0, 25] = nearest_point_on_sphere_to_line example_geometry
             (tsm_sphere_center example_tsm) (eye_radius_default example_geometry) [0, 0, 0]
             (normalize (circle_center ?c))"
    by (simp add: example_geometry_def example_tsm_def normalize_def norm_z vsub_def smul_def)
  show ?thesis
    using b tsm_predict_pupil_circle_radius
            [where from_given = True and input = "Inl (?c, ?c)" and pair = "(?c, ?c)"
               and c = ?c and g = example_geometry and m = example_tsm
               and nearest = "[0, 0, 25]" and use_unprojection = False, OF _ b n] d
    by (simp add: norm_z)
qed

subsection \<open>C8: the disambiguation of a circle pair\<close>

lemmas estimate_defs =
  deep_sphere_estimate_def estimate_new_model_def estimate_projected_sphere_center_def
  disambiguation_indices_def residuals_of_def cost_of_def np_mean_def np_gradient_def
  np_argmax_def sub_def matvec_def vecmat_def madd_def vadd_def vsub_def smul_def dot_def
  pick_def debug_info_of_def Let_def

lemmas example_defs =
  example_numerics_def example_tsm_observation_def observations_a_def observations_b_def
  observations_c_def observations_single_def observations_unordered_def




subsection \<open>C10: the cutoff of the observations\<close>

lemma argmax_from_spec:
  "(argmax_from b bi i xs = bi \<and> (\<forall>x \<in> set xs. x \<le> b))
   \<or> (i \<le> argmax_from b bi i xs \<and> argmax_from b bi i xs < i + length xs
      \<and> b < xs ! (argmax_from b bi i xs - i)
      \<and> (\<forall>x \<in> set xs. x \<le> xs ! (argmax_from b bi i xs - i)))"
proof (induction xs arbitrary: b bi i)
  case Nil
  then show ?case by simp
next
  case (Cons x xs)
  show ?case
  proof (cases "x > b")
    case True
    from Cons.IH [of x i "i + 1"] True show ?thesis
      by (auto simp: nth_Cons' Suc_diff_le)
  next
    case False
    from Cons.IH [of b bi "i + 1"] False show ?thesis
      by (auto simp: nth_Cons' Suc_diff_le)
  qed
qed

lemma np_argmax_spec:
  assumes "xs \<noteq> []"
  shows "np_argmax xs < length xs" and "\<forall>x \<in> set xs. x \<le> xs ! np_argmax xs"
proof -
  obtain y ys where xs: "xs = y # ys" using assms by (cases xs) auto
  from argmax_from_spec [of y 0 1 ys]
  show "np_argmax xs < length xs" and "\<forall>x \<in> set xs. x \<le> xs ! np_argmax xs"
    by (auto simp: xs np_argmax_def nth_Cons')
qed

lemma cost_debug_info_of [simp]:
  "cost (debug_info_of p observations) = cost_of p observations"
  by (simp add: debug_info_of_def)

lemma np_gradient_defined:
  "2 \<le> length f \<Longrightarrow> \<exists>g. np_gradient f = Inr g \<and> length g = length f"
  by (simp add: np_gradient_def Let_def)

lemma np_gradient_raises:
  "length f < 2 \<Longrightarrow> np_gradient f = Inl ValueError"
  by (simp add: np_gradient_def Let_def)

lemma residuals_of_length:
  "length (residuals_of p observations)
     = min (length observations) (length (prev_disambiguation p))"
  by (simp add: residuals_of_def Let_def)

lemma returned_finish:
  "returned (case estimate_new_model lib obs of
               Inl e \<Rightarrow> (Inl e, prev)
             | Inr (center, indices) \<Rightarrow> (Inr (center, cutoff, debug), f center indices))
     = (case estimate_new_model lib obs of
          Inl e \<Rightarrow> Inl e | Inr (c, indices) \<Rightarrow> Inr (c, cutoff))"
  by (simp add: returned_def split: sum.splits prod.splits)

text \<open>
  C10, as stated, fails: with a previous fit recorded (center (0, 0, 0), one
  disambiguation index) and one observation passed, the cost is 1225, above 2, and
  the gradient of the single median-filtered residual raises \<^verbatim>\<open>ValueError\<close>: the
  call returns no cutoff and fits nothing, and the smoothing state stays as it was.
\<close>

theorem deep_sphere_estimate_cutoff_counterexample:
  "cost_of \<lparr>prev_center = [0, 0, 0], prev_disambiguation = [0], prev_t = 0\<rparr>
      observations_single = 1225
   \<and> deep_sphere_estimate example_numerics
        (Some \<lparr>prev_center = [0, 0, 0], prev_disambiguation = [0], prev_t = 0\<rparr>)
        observations_single
     = (Inl ValueError,
        Some \<lparr>prev_center = [0, 0, 0], prev_disambiguation = [0], prev_t = 0\<rparr>)"
  by (simp add: estimate_defs example_defs)

text \<open>
  C10 (amended): with no previous fit recorded, and with a previous fit whose cost on
  the passed observations is at most 2, the call returns what the fit of all the
  passed observations gives (its sphere center, or its exception), with no cutoff.
  With a previous fit whose cost exceeds 2, under a median filter that keeps the
  length of its input: when there are at least two residuals, the cutoff is the
  timestamp of the observation at the index where the gradient of the median-filtered
  residuals is maximal, the observations with an earlier timestamp are discarded, the
  call returns what the fit of the remaining observations gives, and the cutoff is
  its second result; when there are fewer than two residuals, the gradient raises
  \<^verbatim>\<open>ValueError\<close>, so does the call, and the smoothing state is unchanged.
\<close>

theorem deep_sphere_estimate_cutoff:
  "returned (deep_sphere_estimate lib None observations)
     = (case estimate_new_model lib observations of
          Inl e \<Rightarrow> Inl e | Inr (c, indices) \<Rightarrow> Inr (c, None))
   \<and> (\<not> cost_of p observations > 2 \<longrightarrow>
        returned (deep_sphere_estimate lib (Some p) observations)
          = (case estimate_new_model lib observations of
               Inl e \<Rightarrow> Inl e | Inr (c, indices) \<Rightarrow> Inr (c, None)))
   \<and> (cost_of p observations > 2
       \<and> 2 \<le> length (residuals_of p observations)
       \<and> length (median_filter lib (residuals_of p observations) 50)
           = length (residuals_of p observations) \<longrightarrow>
        (\<exists>changes k cutoff remaining.
           np_gradient (median_filter lib (residuals_of p observations) 50) = Inr changes
           \<and> k = np_argmax changes
           \<and> (\<forall>x \<in> set changes. x \<le> changes ! k)
           \<and> k < length observations
           \<and> cutoff = obs_timestamp (observations ! k)
           \<and> remaining = filter (\<lambda>obs. \<not> obs_timestamp obs < cutoff) observations
           \<and> observations ! k \<in> set remaining
           \<and> returned (deep_sphere_estimate lib (Some p) observations)
               = (case estimate_new_model lib remaining of
                    Inl e \<Rightarrow> Inl e | Inr (c, indices) \<Rightarrow> Inr (c, Some cutoff))))
   \<and> (cost_of p observations > 2
       \<and> length (residuals_of p observations) < 2
       \<and> length (median_filter lib (residuals_of p observations) 50)
           = length (residuals_of p observations) \<longrightarrow>
        deep_sphere_estimate lib (Some p) observations = (Inl ValueError, Some p))"
proof -
  have 1: "returned (deep_sphere_estimate lib None observations)
     = (case estimate_new_model lib observations of
          Inl e \<Rightarrow> Inl e | Inr (c, indices) \<Rightarrow> Inr (c, None))"
    by (simp add: deep_sphere_estimate_def returned_finish)
  have 2: "returned (deep_sphere_estimate lib (Some p) observations)
          = (case estimate_new_model lib observations of
               Inl e \<Rightarrow> Inl e | Inr (c, indices) \<Rightarrow> Inr (c, None))"
    if "\<not> cost_of p observations > 2"
    using that by (simp add: deep_sphere_estimate_def returned_finish Let_def)
  have 3: "\<exists>changes k cutoff remaining.
           np_gradient (median_filter lib (residuals_of p observations) 50) = Inr changes
           \<and> k = np_argmax changes
           \<and> (\<forall>x \<in> set changes. x \<le> changes ! k)
           \<and> k < length observations
           \<and> cutoff = obs_timestamp (observations ! k)
           \<and> remaining = filter (\<lambda>obs. \<not> obs_timestamp obs < cutoff) observations
           \<and> observations ! k \<in> set remaining
           \<and> returned (deep_sphere_estimate lib (Some p) observations)
               = (case estimate_new_model lib remaining of
                    Inl e \<Rightarrow> Inl e | Inr (c, indices) \<Rightarrow> Inr (c, Some cutoff))"
    if c: "cost_of p observations > 2"
      and n: "2 \<le> length (residuals_of p observations)"
      and m: "length (median_filter lib (residuals_of p observations) 50)
           = length (residuals_of p observations)"
  proof -
    obtain changes where g:
      "np_gradient (median_filter lib (residuals_of p observations) 50) = Inr changes"
      "length changes = length (residuals_of p observations)"
      using np_gradient_defined [of "median_filter lib (residuals_of p observations) 50"] n m
      by auto
    have ne: "changes \<noteq> []" using g(2) n by auto
    have k: "np_argmax changes < length observations"
      using np_argmax_spec(1) [OF ne] g(2) residuals_of_length [of p observations] by simp
    have r: "returned (deep_sphere_estimate lib (Some p) observations)
        = (case estimate_new_model lib
                  (filter (\<lambda>obs. \<not> obs_timestamp obs
                                    < obs_timestamp (observations ! np_argmax changes))
                     observations) of
             Inl e \<Rightarrow> Inl e
           | Inr (c, indices) \<Rightarrow>
               Inr (c, Some (obs_timestamp (observations ! np_argmax changes))))"
      using c k by (simp add: deep_sphere_estimate_def g(1) returned_finish Let_def not_less)
    show ?thesis
      using g(1) np_argmax_spec(2) [OF ne] k r by simp
  qed
  have 4: "deep_sphere_estimate lib (Some p) observations = (Inl ValueError, Some p)"
    if c: "cost_of p observations > 2"
      and n: "length (residuals_of p observations) < 2"
      and m: "length (median_filter lib (residuals_of p observations) 50)
           = length (residuals_of p observations)"
    using c np_gradient_raises [of "median_filter lib (residuals_of p observations) 50"] n m
    by (simp add: deep_sphere_estimate_def Let_def)
  show ?thesis
    using 1 2 3 4 by blast
qed

lemma estimate_observations_unordered:
  "estimate_new_model example_numerics observations_unordered = Inr ([0, 0, 35], [0, 0])"
  by (simp add: estimate_defs example_defs)

lemma estimate_observations_later:
  "estimate_new_model example_numerics [example_tsm_observation [0, 0] [0, 0, 1] 2]
     = Inr ([0, 0, 0], [0])"
  by (simp add: estimate_defs example_defs)

lemma residuals_observations_unordered:
  "residuals_of \<lparr>prev_center = [35, 0, 0], prev_disambiguation = [0, 0], prev_t = 0\<rparr>
     observations_unordered = [1225, 1225]"
  by (simp add: estimate_defs example_defs)

theorem deep_sphere_estimate_cutoff_witness:
  "returned (deep_sphere_estimate example_numerics None observations_unordered)
     = Inr ([0, 0, 35], None)
   \<and> cost_of \<lparr>prev_center = [0, 0, 35], prev_disambiguation = [0, 0], prev_t = 2\<rparr>
        observations_unordered = 0
   \<and> returned (deep_sphere_estimate example_numerics
        (Some \<lparr>prev_center = [0, 0, 35], prev_disambiguation = [0, 0], prev_t = 2\<rparr>)
        observations_unordered) = Inr ([0, 0, 35], None)
   \<and> cost_of \<lparr>prev_center = [35, 0, 0], prev_disambiguation = [0, 0], prev_t = 0\<rparr>
        observations_unordered = 1225
   \<and> map obs_timestamp observations_unordered = [2, 1]
   \<and> returned (deep_sphere_estimate example_numerics
        (Some \<lparr>prev_center = [35, 0, 0], prev_disambiguation = [0, 0], prev_t = 0\<rparr>)
        observations_unordered) = Inr ([0, 0, 0], Some 2)
   \<and> cost_of \<lparr>prev_center = [0, 0, 0], prev_disambiguation = [0], prev_t = 0\<rparr>
        observations_a = 1225
   \<and> deep_sphere_estimate example_numerics
        (Some \<lparr>prev_center = [0, 0, 0], prev_disambiguation = [0], prev_t = 0\<rparr>)
        observations_a
     = (Inl ValueError,
        Some \<lparr>prev_center = [0, 0, 0], prev_disambiguation = [0], prev_t = 0\<rparr>)"
proof -
  let ?near = "\<lparr>prev_center = [0, 0, 35], prev_disambiguation = [0, 0], prev_t = 2\<rparr>"
  let ?far = "\<lparr>prev_center = [35, 0, 0], prev_disambiguation = [0, 0], prev_t = 0\<rparr>"
  let ?short = "\<lparr>prev_center = [0, 0, 0], prev_disambiguation = [0], prev_t = 0\<rparr>"
  have c0: "cost_of ?near observations_unordered = 0"
    by (simp add: estimate_defs example_defs)
  have c1: "cost_of ?far observations_unordered = 1225"
    by (simp add: cost_of_def residuals_observations_unordered np_mean_def)
  have ts: "map obs_timestamp observations_unordered = [2, 1]"
    by (simp add: example_defs Let_def)
  have g: "np_gradient [1225, 1225] = Inr [0, 0]"
    by (simp add: np_gradient_def)
  have k: "np_argmax [0, 0] = 0"
    by (simp add: np_argmax_def)
  have t: "obs_timestamp (observations_unordered ! 0) = 2"
    by (simp add: example_defs Let_def)
  have f: "filter (\<lambda>obs. \<not> obs_timestamp obs < 2) observations_unordered
             = [example_tsm_observation [0, 0] [0, 0, 1] 2]"
    by (simp add: example_defs Let_def)
  have 1: "returned (deep_sphere_estimate example_numerics None observations_unordered)
     = Inr ([0, 0, 35], None)"
    using deep_sphere_estimate_cutoff
      [where lib = example_numerics and observations = observations_unordered and p = ?near,
       THEN conjunct1]
    by (simp add: estimate_observations_unordered)
  have 2: "returned (deep_sphere_estimate example_numerics (Some ?near) observations_unordered)
     = Inr ([0, 0, 35], None)"
    using deep_sphere_estimate_cutoff
      [where lib = example_numerics and observations = observations_unordered and p = ?near,
       THEN conjunct2, THEN conjunct1]
    by (simp add: estimate_observations_unordered c0)
  have m: "median_filter example_numerics [1225, 1225] 50 = [1225, 1225]"
    by (simp add: example_numerics_def)
  have h: "cost_of ?far observations_unordered > 2
       \<and> 2 \<le> length (residuals_of ?far observations_unordered)
       \<and> length (median_filter example_numerics (residuals_of ?far observations_unordered) 50)
           = length (residuals_of ?far observations_unordered)"
    by (simp add: c1 residuals_observations_unordered m)
  from deep_sphere_estimate_cutoff
      [where lib = example_numerics and observations = observations_unordered and p = ?far,
       THEN conjunct2, THEN conjunct2, THEN conjunct1, rule_format, OF h]
  obtain changes k' cutoff remaining where r:
    "np_gradient (median_filter example_numerics (residuals_of ?far observations_unordered) 50)
       = Inr changes"
    "k' = np_argmax changes"
    "cutoff = obs_timestamp (observations_unordered ! k')"
    "remaining = filter (\<lambda>obs. \<not> obs_timestamp obs < cutoff) observations_unordered"
    "returned (deep_sphere_estimate example_numerics (Some ?far) observations_unordered)
       = (case estimate_new_model example_numerics remaining of
            Inl e \<Rightarrow> Inl e | Inr (c, indices) \<Rightarrow> Inr (c, Some cutoff))"
    by blast
  have "changes = [0, 0]"
    using r(1) by (simp add: residuals_observations_unordered m g)
  then have "k' = 0"
    using r(2) k by simp
  then have "cutoff = 2" and "remaining = [example_tsm_observation [0, 0] [0, 0, 1] 2]"
    using r(3,4) t f by simp_all
  then have 3: "returned (deep_sphere_estimate example_numerics (Some ?far)
       observations_unordered) = Inr ([0, 0, 0], Some 2)"
    using r(5) by (simp add: estimate_observations_later)
  have rs: "residuals_of ?short observations_a = [1225]"
    by (simp add: estimate_defs example_defs)
  have c2: "cost_of ?short observations_a = 1225"
    by (simp add: cost_of_def rs np_mean_def)
  have 4: "deep_sphere_estimate example_numerics (Some ?short) observations_a
     = (Inl ValueError, Some ?short)"
    using deep_sphere_estimate_cutoff
      [where lib = example_numerics and observations = observations_a and p = ?short,
       THEN conjunct2, THEN conjunct2, THEN conjunct2]
    by (simp add: c2 rs example_numerics_def)
  show ?thesis
    using 1 2 3 4 c0 c1 c2 ts by simp
qed

subsection \<open>C9: the smoothing state is shared\<close>

text \<open>
  C9, as stated, fails: the smoothing state is one module-level value. When the
  first instance estimates twice from its two observations, the second call finds its
  own fit (0, 0, 35), of cost 0, and returns the center (0, 0, 35). When the second
  instance estimates from its observation in between, it leaves its center
  (0, 0, 0) and its one disambiguation index in the shared state; the first
  instance's second call then pairs its observations with that one index, finds the
  cost 1225, and raises in the gradient of the single filtered residual: it returns
  no center.
\<close>

theorem deep_sphere_estimate_interference_counterexample:
  "returned (deep_sphere_estimate example_numerics
      (snd (deep_sphere_estimate example_numerics None observations_a)) observations_a)
     = Inr ([0, 0, 35], None)
   \<and> returned (deep_sphere_estimate example_numerics
      (snd (deep_sphere_estimate example_numerics
         (snd (deep_sphere_estimate example_numerics None observations_a)) observations_b))
      observations_a)
     = Inl ValueError"
proof -
  have a: "snd (deep_sphere_estimate example_numerics None observations_a)
     = Some \<lparr>prev_center = [0, 0, 35], prev_disambiguation = [0, 0], prev_t = 2\<rparr>"
    by (simp add: estimate_defs example_defs)
  have b: "snd (deep_sphere_estimate example_numerics
       (Some \<lparr>prev_center = [0, 0, 35], prev_disambiguation = [0, 0], prev_t = 2\<rparr>)
       observations_b)
     = Some \<lparr>prev_center = [0, 0, 0], prev_disambiguation = [0], prev_t = 3 / 2\<rparr>"
    by (simp add: estimate_defs example_defs)
  have 1: "returned (deep_sphere_estimate example_numerics
       (Some \<lparr>prev_center = [0, 0, 35], prev_disambiguation = [0, 0], prev_t = 2\<rparr>)
       observations_a) = Inr ([0, 0, 35], None)"
    by (simp add: estimate_defs example_defs returned_def)
  have 2: "returned (deep_sphere_estimate example_numerics
       (Some \<lparr>prev_center = [0, 0, 0], prev_disambiguation = [0], prev_t = 3 / 2\<rparr>)
       observations_a) = Inl ValueError"
    by (simp add: estimate_defs example_defs returned_def)
  show ?thesis
    by (simp add: a b 1 2)
qed

lemma deep_sphere_estimate_without_cutoff:
  assumes "case prev of None \<Rightarrow> True | Some p \<Rightarrow> \<not> cost_of p observations > 2"
  shows "deep_sphere_estimate lib prev observations
     = (case estimate_new_model lib observations of
          Inl e \<Rightarrow> (Inl e, prev)
        | Inr (c, indices) \<Rightarrow>
            (Inr (c, None, map_option (\<lambda>p. debug_info_of p observations) prev),
             Some \<lparr>prev_center = c, prev_disambiguation = indices,
                   prev_t = obs_timestamp (last observations)\<rparr>))"
  using assms
  by (cases prev) (simp_all add: deep_sphere_estimate_def Let_def split: sum.splits)

text \<open>
  C9 (amended): the smoothing state is module-level, shared by all instances. Take a
  call of \<^verbatim>\<open>deep_sphere_estimate\<close> on a sequence of observations in two runs,
  started in the shared states \<open>prev1\<close> and \<open>prev2\<close> (the one the instance's own
  estimates left, and the one another instance's interleaved estimate left), each of
  which records no previous fit or a previous fit whose cost on the passed
  observations is at most 2. Then the sphere center and the cutoff it returns (or the
  exception it raises) are the same in the two runs: those of the fit of all the
  passed observations, with no cutoff; when the fit succeeds, the call leaves the
  same state in the two runs, and when it raises, each state is left as it was. The
  debug information it returns as third result is not the same: it is \<open>None\<close> when
  no previous fit is recorded, and otherwise holds the residuals, the cost and the
  directions of the passed observations against the shared state in which the call
  started.
\<close>

theorem deep_sphere_estimate_shared_state:
  assumes "case prev1 of None \<Rightarrow> True | Some p \<Rightarrow> \<not> cost_of p observations > 2"
    and "case prev2 of None \<Rightarrow> True | Some p \<Rightarrow> \<not> cost_of p observations > 2"
  shows "returned (deep_sphere_estimate lib prev1 observations)
           = returned (deep_sphere_estimate lib prev2 observations)
       \<and> (\<forall>c indices. estimate_new_model lib observations = Inr (c, indices) \<longrightarrow>
            deep_sphere_estimate lib prev1 observations
              = (Inr (c, None, map_option (\<lambda>p. debug_info_of p observations) prev1),
                 Some \<lparr>prev_center = c, prev_disambiguation = indices,
                       prev_t = obs_timestamp (last observations)\<rparr>)
          \<and> deep_sphere_estimate lib prev2 observations
              = (Inr (c, None, map_option (\<lambda>p. debug_info_of p observations) prev2),
                 Some \<lparr>prev_center = c, prev_disambiguation = indices,
                       prev_t = obs_timestamp (last observations)\<rparr>))
       \<and> (\<forall>e. estimate_new_model lib observations = Inl e \<longrightarrow>
            deep_sphere_estimate lib prev1 observations = (Inl e, prev1)
          \<and> deep_sphere_estimate lib prev2 observations = (Inl e, prev2))"
  unfolding deep_sphere_estimate_without_cutoff [OF assms(1)]
    deep_sphere_estimate_without_cutoff [OF assms(2)]
  by (simp add: returned_def split: sum.splits)

theorem deep_sphere_estimate_shared_state_witness:
  "snd (deep_sphere_estimate example_numerics None observations_a)
     = Some \<lparr>prev_center = [0, 0, 35], prev_disambiguation = [0, 0], prev_t = 2\<rparr>
   \<and> snd (deep_sphere_estimate example_numerics
        (Some \<lparr>prev_center = [0, 0, 35], prev_disambiguation = [0, 0], prev_t = 2\<rparr>)
        observations_c)
     = Some \<lparr>prev_center = [0, 0, 35], prev_disambiguation = [0], prev_t = 3 / 2\<rparr>
   \<and> \<not> cost_of \<lparr>prev_center = [0, 0, 35], prev_disambiguation = [0, 0], prev_t = 2\<rparr>
        observations_a > 2
   \<and> \<not> cost_of \<lparr>prev_center = [0, 0, 35], prev_disambiguation = [0], prev_t = 3 / 2\<rparr>
        observations_a > 2
   \<and> deep_sphere_estimate example_numerics
        (Some \<lparr>prev_center = [0, 0, 35], prev_disambiguation = [0, 0], prev_t = 2\<rparr>)
        observations_a
     = (Inr ([0, 0, 35], None,
             Some \<lparr>residuals = [0, 0], cost = 0, directions = [[1, 0], [0, 1]]\<rparr>),
        Some \<lparr>prev_center = [0, 0, 35], prev_disambiguation = [0, 0], prev_t = 2\<rparr>)
   \<and> deep_sphere_estimate example_numerics
        (Some \<lparr>prev_center = [0, 0, 35], prev_disambiguation = [0], prev_t = 3 / 2\<rparr>)
        observations_a
     = (Inr ([0, 0, 35], None,
             Some \<lparr>residuals = [0], cost = 0, directions = [[1, 0]]\<rparr>),
        Some \<lparr>prev_center = [0, 0, 35], prev_disambiguation = [0, 0], prev_t = 2\<rparr>)"
proof -
  let ?own = "\<lparr>prev_center = [0, 0, 35], prev_disambiguation = [0, 0], prev_t = 2\<rparr>"
  let ?other = "\<lparr>prev_center = [0, 0, 35], prev_disambiguation = [0], prev_t = 3 / 2\<rparr>"
  have a: "snd (deep_sphere_estimate example_numerics None observations_a) = Some ?own"
    by (simp add: estimate_defs example_defs)
  have b: "snd (deep_sphere_estimate example_numerics (Some ?own) observations_c)
     = Some ?other"
    by (simp add: estimate_defs example_defs)
  have c: "\<not> cost_of ?own observations_a > 2" "\<not> cost_of ?other observations_a > 2"
    by (simp_all add: estimate_defs example_defs)
  have e: "estimate_new_model example_numerics observations_a = Inr ([0, 0, 35], [0, 0])"
    by (simp add: estimate_defs example_defs)
  have d: "debug_info_of ?own observations_a
       = \<lparr>residuals = [0, 0], cost = 0, directions = [[1, 0], [0, 1]]\<rparr>"
    "debug_info_of ?other observations_a
       = \<lparr>residuals = [0], cost = 0, directions = [[1, 0]]\<rparr>"
    by (simp_all add: estimate_defs example_defs normalize_def norm_def)
  have t: "obs_timestamp (last observations_a) = 2"
    by (simp add: example_defs Let_def)
  have r: "deep_sphere_estimate example_numerics (Some ?own) observations_a
       = (Inr ([0, 0, 35], None, Some (debug_info_of ?own observations_a)), Some ?own)
     \<and> deep_sphere_estimate example_numerics (Some ?other) observations_a
       = (Inr ([0, 0, 35], None, Some (debug_info_of ?other observations_a)), Some ?own)"
    using c e t deep_sphere_estimate_shared_state
      [where ?prev1.0 = "Some ?own" and ?prev2.0 = "Some ?other"
         and observations = observations_a and lib = example_numerics,
       THEN conjunct2, THEN conjunct1, rule_format, of "[0, 0, 35]" "[0, 0]"]
    by simp
  show ?thesis
    using a b c r by (simp add: d)
qed

end
